theory Spec2Isabelle
  imports Main
begin

section \<open>Python string operations used by auto\_ssl.py\<close>

text \<open>
  Python strings are modelled as HOL strings, that is as lists of characters with code
  points below 256.  The operations below are the built-in \<^verbatim>\<open>str\<close> methods the script
  calls, with Python's behaviour on such strings.
\<close>

text \<open>\<^verbatim>\<open>s.split(c)\<close> for a one-character separator: never empty, one piece more than
  there are separators.\<close>

fun split_on :: "char \<Rightarrow> string \<Rightarrow> string list" where
  "split_on c [] = [[]]"
| "split_on c (x # xs) =
     (if x = c then [] # split_on c xs
      else (case split_on c xs of
              [] \<Rightarrow> [[x]]
            | p # ps \<Rightarrow> (x # p) # ps))"

text \<open>\<^verbatim>\<open>s.startswith(p)\<close> and \<^verbatim>\<open>s.endswith(p)\<close>.\<close>

fun startswith :: "string \<Rightarrow> string \<Rightarrow> bool" where
  "startswith s [] = True"
| "startswith [] (p # ps) = False"
| "startswith (x # xs) (p # ps) = (x = p \<and> startswith xs ps)"

definition endswith :: "string \<Rightarrow> string \<Rightarrow> bool" where
  "endswith s p = startswith (rev s) (rev p)"

text \<open>\<^verbatim>\<open>sub in s\<close>: \<open>sub\<close> occurs in \<open>s\<close> as a contiguous substring.\<close>

fun contains :: "string \<Rightarrow> string \<Rightarrow> bool" where
  "contains sub [] = (sub = [])"
| "contains sub (x # xs) = (startswith (x # xs) sub \<or> contains sub xs)"

text \<open>\<^verbatim>\<open>sep.join(parts)\<close>.\<close>

fun join :: "string \<Rightarrow> string list \<Rightarrow> string" where
  "join sep [] = []"
| "join sep [p] = p"
| "join sep (p # q # ps) = p @ sep @ join sep (q # ps)"

text \<open>\<^verbatim>\<open>s.replace(old, new)\<close>: every non-overlapping occurrence, from the left.  With an
  empty \<open>old\<close> Python puts \<open>new\<close> before every character and at the end.\<close>

function replace :: "string \<Rightarrow> string \<Rightarrow> string \<Rightarrow> string" where
  "replace old new s =
     (if old = [] then new @ concat (map (\<lambda>c. c # new) s)
      else if s = [] then []
      else if startswith s old then new @ replace old new (drop (length old) s)
      else hd s # replace old new (tl s))"
  by pat_completeness auto
termination
  by (relation "measure (\<lambda>(old, new, s). length s)") auto

text \<open>\<^verbatim>\<open>c.isspace()\<close> on code points below 256: the characters \<^verbatim>\<open>s.strip()\<close> removes.\<close>

definition isspace :: "char \<Rightarrow> bool" where
  "isspace c = (let n = (of_char c :: nat) in
                  (9 \<le> n \<and> n \<le> 13) \<or> (28 \<le> n \<and> n \<le> 32) \<or> n = 133 \<or> n = 160)"

text \<open>\<^verbatim>\<open>s.strip()\<close> and \<^verbatim>\<open>s.strip(chars)\<close>.\<close>

definition strip_where :: "(char \<Rightarrow> bool) \<Rightarrow> string \<Rightarrow> string" where
  "strip_where P s = rev (dropWhile P (rev (dropWhile P s)))"

definition strip :: "string \<Rightarrow> string" where
  "strip s = strip_where isspace s"

definition strip_chars :: "string \<Rightarrow> string \<Rightarrow> string" where
  "strip_chars chars s = strip_where (\<lambda>c. c \<in> set chars) s"

text \<open>\<^verbatim>\<open>s.lower()\<close> on code points below 256: A-Z and the upper-case letters of Latin-1.\<close>

definition lower_char :: "char \<Rightarrow> char" where
  "lower_char c = (let n = (of_char c :: nat) in
                     if (65 \<le> n \<and> n \<le> 90) \<or> (192 \<le> n \<and> n \<le> 222 \<and> n \<noteq> 215)
                     then char_of (n + 32) else c)"

definition lower :: "string \<Rightarrow> string" where
  "lower s = map lower_char s"

text \<open>A Python value used as a condition: \<^verbatim>\<open>None\<close> and the empty string are false.\<close>

fun truthy :: "string option \<Rightarrow> bool" where
  "truthy None = False"
| "truthy (Some s) = (s \<noteq> [])"

abbreviation squote :: char where "squote \<equiv> CHR 0x27"
abbreviation dquote :: char where "dquote \<equiv> CHR 0x22"
abbreviation newline :: char where "newline \<equiv> CHR 0x0A"

section \<open>\_extract\_txt\_value\<close>

text \<open>The condition of the first loop (line 333).\<close>

definition has_txt_marker :: "string \<Rightarrow> bool" where
  "has_txt_marker line = (contains ''TXT value'' line \<or> contains ''txt value'' (lower line))"

text \<open>The condition of the second loop (line 344).\<close>

definition has_challenge_marker :: "string \<Rightarrow> bool" where
  "has_challenge_marker line = (contains ''_acme-challenge'' line \<and> contains ''='' line)"

text \<open>The first loop (lines 332-340): the text between the first two single quotes of a
  marked line, else between its first two double quotes, else the next line.\<close>

fun scan_txt_value :: "string list \<Rightarrow> string option" where
  "scan_txt_value [] = None"
| "scan_txt_value (line # rest) =
     (if has_txt_marker line then
        (let parts = split_on squote line in
         if length parts \<ge> 2 then Some (parts ! 1)
         else (let parts = split_on dquote line in
               if length parts \<ge> 2 then Some (parts ! 1)
               else scan_txt_value rest))
      else scan_txt_value rest)"

text \<open>The value the second loop computes on a line (lines 345-347);
  \<open>None\<close> when the line has fewer than two parts.\<close>

definition challenge_value :: "string \<Rightarrow> string option" where
  "challenge_value line =
     (let parts = split_on CHR ''='' line in
      if length parts \<ge> 2 then Some (strip_chars [squote, dquote] (strip (parts ! 1)))
      else None)"

text \<open>The second loop (lines 343-349).\<close>

fun scan_challenge :: "string list \<Rightarrow> string option" where
  "scan_challenge [] = None"
| "scan_challenge (line # rest) =
     (if has_challenge_marker line then
        (case challenge_value line of
           Some v \<Rightarrow> (if v \<noteq> [] then Some v else scan_challenge rest)
         | None \<Rightarrow> scan_challenge rest)
      else scan_challenge rest)"

definition extract_txt_value :: "string \<Rightarrow> string option" where
  "extract_txt_value output =
     (let lines = split_on newline output in
      case scan_txt_value lines of
        Some v \<Rightarrow> Some v
      | None \<Rightarrow> scan_challenge lines)"

section \<open>Data\<close>

text \<open>
  One entry of \<^verbatim>\<open>cert_records\<close> (and of cert\_records.json): the dictionary with the keys
  \<^verbatim>\<open>expiry_date\<close>, \<^verbatim>\<open>updated_at\<close> and \<^verbatim>\<open>status\<close>.  A field is \<open>None\<close> when the key is
  missing or null; entries are taken to be dictionaries with string fields, as the script
  writes them.
\<close>

record cert_record =
  expiry_date :: "string option"
  updated_at :: "string option"
  status :: "string option"

type_synonym record_store = "string \<rightharpoonup> cert_record"

text \<open>The keys of config.json the modelled functions read; \<open>None\<close> is a missing key.\<close>

record config =
  domains :: "string list"
  renewal_days_before_expiry :: "int option"
  acme_home :: "string option"
  email :: "string option"
  acme_server :: "string option"
  force_https :: "bool option"

text \<open>What \<^verbatim>\<open>subprocess.run(..., capture_output=True, text=True)\<close> returns.\<close>

record completed_process =
  returncode :: int
  stdout :: string
  stderr :: string

record cert_paths =
  cert :: string
  key :: string
  ca :: string

text \<open>
  Every call that acts on the outside world is recorded, with its arguments, in the order
  in which it is made: the two acme.sh runs, the four Aliyun DNS requests (the fields set
  on the request object), \<^verbatim>\<open>time.sleep\<close>, the two Qiniu HTTP requests (url and JSON body;
  the signed token of the headers is left out) and the rewriting of cert\_records.json.
  Reading the clock or the file system is not recorded.
\<close>

datatype event =
    AcmeRun "string list"
  | DescribeDomainRecords string string string
  | UpdateDomainRecord string string string string
  | AddDomainRecord string string string string
  | DeleteDomainRecord string
  | Sleep nat
  | PostSslCert string string string string string
  | PutHttpsConf string "string option" bool
  | WriteRecordFile

text \<open>The \<^verbatim>\<open>logger.error\<close> calls of \<^verbatim>\<open>issue_certificate\<close> (lines 285-287, 296, 322
  and 326).  The other log lines of the script are not modelled.\<close>

datatype log_entry =
    ErrNoTxtValue
  | ErrAcmeOutput string
  | ErrAcmeError string
  | ErrAddTxtFailed
  | ErrIssueFailed string
  | ErrIssueException

text \<open>How \<^verbatim>\<open>_save_cert_records\<close> can end: the document is written; \<^verbatim>\<open>open\<close> raises and
  the file is untouched; or \<^verbatim>\<open>open\<close> has truncated the file and \<^verbatim>\<open>json.dump\<close> raises.\<close>

datatype write_outcome = Written | OpenFailed | WriteFailed

datatype error = OSError

text \<open>
  The outside world.  Time is in microseconds on the local (naive) time line.
  Each answer may depend on everything done so far (the trace, which for a call ends with
  the call itself); \<open>None\<close> stands for a raised exception:
  \<^item> \<open>clock\<close>: \<^verbatim>\<open>datetime.now()\<close>; two readings with no recorded call between them
    give the same time; times are unbounded, so \<^verbatim>\<open>now + timedelta(days=90)\<close> never
    overflows;
  \<^item> \<open>fromisoformat\<close>: the naive time \<^verbatim>\<open>datetime.fromisoformat(s)\<close> denotes; \<open>None\<close> when
    it raises, and also when it returns a time with a UTC offset, from which
    \<^verbatim>\<open>datetime.now()\<close> cannot be subtracted (TypeError, raised in the same \<^verbatim>\<open>try\<close> block);
  \<^item> \<open>isoformat\<close>, \<open>strftime\<close> (with the format \<^verbatim>\<open>%Y%m%d%H%M%S\<close>), \<open>expanduser\<close>: the library
    functions of these names;
  \<^item> \<open>path_exists\<close>, \<open>read_file\<close>: \<^verbatim>\<open>os.path.exists\<close>, and \<^verbatim>\<open>open(p).read()\<close>;
  \<^item> \<open>subprocess_run\<close>: the completed acme.sh process;
  \<^item> \<open>describe_records\<close>: the \<^verbatim>\<open>RecordId\<close>s of \<^verbatim>\<open>result['DomainRecords']['Record']\<close>
    (\<open>None\<close>: the request or the decoding of its answer raises);
  \<^item> \<open>update_record\<close>: whether the update request returns;
  \<^item> \<open>add_record\<close>: \<^verbatim>\<open>result['RecordId']\<close> of the answer to the add request;
  \<^item> \<open>post_sslcert\<close>: the status code and, decoded from the body, \<^verbatim>\<open>certID\<close>;
  \<^item> \<open>put_httpsconf\<close>: the status code;
  \<^item> \<open>write_record_file\<close>: how writing cert\_records.json ends.
\<close>

record env =
  clock :: "event list \<Rightarrow> int"
  fromisoformat :: "string \<Rightarrow> int option"
  isoformat :: "int \<Rightarrow> string"
  strftime :: "int \<Rightarrow> string"
  expanduser :: "string \<Rightarrow> string"
  path_exists :: "event list \<Rightarrow> string \<Rightarrow> bool"
  read_file :: "event list \<Rightarrow> string \<Rightarrow> string option"
  subprocess_run :: "event list \<Rightarrow> completed_process option"
  describe_records :: "event list \<Rightarrow> string list option"
  update_record :: "event list \<Rightarrow> bool"
  add_record :: "event list \<Rightarrow> string option"
  post_sslcert :: "event list \<Rightarrow> (int \<times> string option) option"
  put_httpsconf :: "event list \<Rightarrow> int option"
  write_record_file :: "event list \<Rightarrow> write_outcome"

text \<open>
  The state of one run: \<^verbatim>\<open>self.cert_records\<close>, the document in cert\_records.json
  (\<open>None\<close>: no well-formed document), the calls made so far and the errors logged by
  \<^verbatim>\<open>issue_certificate\<close>.
\<close>

record world =
  cert_records :: record_store
  record_file :: "record_store option"
  trace :: "event list"
  errlog :: "log_entry list"

definition emit :: "event \<Rightarrow> world \<Rightarrow> world" where
  "emit e w = w\<lparr>trace := trace w @ [e]\<rparr>"

definition log_error :: "log_entry \<Rightarrow> world \<Rightarrow> world" where
  "log_error m w = w\<lparr>errlog := errlog w @ [m]\<rparr>"

definition usec_per_day :: int where
  "usec_per_day = 86400000000"

section \<open>The certificate record store\<close>

text \<open>\<^verbatim>\<open>self.config.get('renewal_days_before_expiry', 30)\<close>.\<close>

definition threshold_days :: "config \<Rightarrow> int" where
  "threshold_days cfg = (case renewal_days_before_expiry cfg of None \<Rightarrow> 30 | Some n \<Rightarrow> n)"

text \<open>\<^verbatim>\<open>(expiry_date - datetime.now()).days\<close>: the days of a timedelta are the floor of the
  difference.\<close>

definition days_between :: "int \<Rightarrow> int \<Rightarrow> int" where
  "days_between now expiry = (expiry - now) div usec_per_day"

text \<open>Lines 97-126.  Every exception of the \<^verbatim>\<open>try\<close> block ends in \<^verbatim>\<open>return True\<close>.\<close>

definition check_cert_expiry :: "env \<Rightarrow> config \<Rightarrow> world \<Rightarrow> string \<Rightarrow> bool" where
  "check_cert_expiry env cfg w domain =
     (case cert_records w domain of
        None \<Rightarrow> True
      | Some r \<Rightarrow>
          (case expiry_date r of
             None \<Rightarrow> True
           | Some expiry_date_str \<Rightarrow>
               if expiry_date_str = [] then True
               else (case fromisoformat env expiry_date_str of
                       None \<Rightarrow> True
                     | Some expiry \<Rightarrow>
                         (let days_remaining = days_between (clock env (trace w)) expiry in
                          days_remaining \<le> threshold_days cfg))))"

text \<open>Lines 91-95.\<close>

definition save_cert_records :: "env \<Rightarrow> world \<Rightarrow> (error + unit) \<times> world" where
  "save_cert_records env w =
     (let w1 = emit WriteRecordFile w in
      case write_record_file env (trace w1) of
        Written \<Rightarrow> (Inr (), w1\<lparr>record_file := Some (cert_records w1)\<rparr>)
      | OpenFailed \<Rightarrow> (Inl OSError, w1)
      | WriteFailed \<Rightarrow> (Inl OSError, w1\<lparr>record_file := None\<rparr>))"

text \<open>Lines 468-479.  The entry is put into \<^verbatim>\<open>self.cert_records\<close> before the file is
  written.\<close>

definition update_cert_record :: "env \<Rightarrow> string \<Rightarrow> world \<Rightarrow> (error + unit) \<times> world" where
  "update_cert_record env domain w =
     (let expiry = clock env (trace w) + 90 * usec_per_day;
          entry = \<lparr>expiry_date = Some (isoformat env expiry),
                   updated_at = Some (isoformat env (clock env (trace w))),
                   status = Some ''active''\<rparr>
      in save_cert_records env (w\<lparr>cert_records := (cert_records w)(domain \<mapsto> entry)\<rparr>))"

section \<open>The DNS challenge record\<close>

text \<open>Lines 128-133.\<close>

definition get_root_domain :: "string \<Rightarrow> string" where
  "get_root_domain domain =
     (let parts = split_on CHR ''.'' domain in
      if length parts \<ge> 2 then join ''.'' (drop (length parts - 2) parts) else domain)"

text \<open>Lines 138-141: the record name relative to the root domain.\<close>

definition challenge_record_name :: "string \<Rightarrow> string" where
  "challenge_record_name domain =
     (let root_domain = get_root_domain domain;
          record_name = replace (''.'' @ root_domain) [] (''_acme-challenge.'' @ domain)
      in if endswith record_name root_domain
         then take (length record_name - (length root_domain + 1)) record_name
         else record_name)"

text \<open>Lines 181-198.\<close>

definition find_dns_record ::
  "env \<Rightarrow> string \<Rightarrow> string \<Rightarrow> string \<Rightarrow> world \<Rightarrow> string option \<times> world" where
  "find_dns_record env domain rr record_type w =
     (let w1 = emit (DescribeDomainRecords domain rr record_type) w in
      case describe_records env (trace w1) of
        None \<Rightarrow> (None, w1)
      | Some records \<Rightarrow>
          (case records of
             [] \<Rightarrow> (None, w1)
           | record_id # _ \<Rightarrow> (Some record_id, w1)))"

text \<open>Lines 135-179.\<close>

definition add_dns_txt_record ::
  "env \<Rightarrow> string \<Rightarrow> string \<Rightarrow> world \<Rightarrow> string option \<times> world" where
  "add_dns_txt_record env domain record_value w =
     (let root_domain = get_root_domain domain;
          record_name = challenge_record_name domain;
          (existing_record_id, w1) = find_dns_record env root_domain record_name ''TXT'' w
      in if truthy existing_record_id then
           (let rid = (case existing_record_id of Some i \<Rightarrow> i | None \<Rightarrow> []);
                w2 = emit (UpdateDomainRecord rid record_name ''TXT'' record_value) w1
            in if update_record env (trace w2) then (Some rid, w2) else (None, w2))
         else
           (let w2 = emit (AddDomainRecord root_domain record_name ''TXT'' record_value) w1 in
            case add_record env (trace w2) of
              None \<Rightarrow> (None, w2)
            | Some record_id \<Rightarrow> (Some record_id, emit (Sleep 60) w2)))"

text \<open>Lines 200-211.  Whether the request returns or raises changes only the log.\<close>

definition delete_dns_txt_record :: "string \<Rightarrow> world \<Rightarrow> world" where
  "delete_dns_txt_record record_id w =
     (if record_id = [] then w else emit (DeleteDomainRecord record_id) w)"

section \<open>Certificate files and the acme.sh runs\<close>

text \<open>\<^verbatim>\<open>os.path.join(a, b)\<close> on POSIX.\<close>

definition path_join :: "string \<Rightarrow> string \<Rightarrow> string" where
  "path_join a b =
     (if startswith b ''/'' then b
      else if a = [] \<or> endswith a ''/'' then a @ b
      else a @ ''/'' @ b)"

text \<open>\<^verbatim>\<open>os.path.expanduser(self.config.get('acme_home', '~/.acme.sh'))\<close>.\<close>

definition acme_home_dir :: "env \<Rightarrow> config \<Rightarrow> string" where
  "acme_home_dir env cfg =
     expanduser env (case acme_home cfg of None \<Rightarrow> ''~/.acme.sh'' | Some h \<Rightarrow> h)"

text \<open>Lines 353-373.\<close>

definition get_certificate_paths :: "env \<Rightarrow> config \<Rightarrow> world \<Rightarrow> string \<Rightarrow> cert_paths" where
  "get_certificate_paths env cfg w domain =
     (let cert_dir_ecc = path_join (acme_home_dir env cfg) (domain @ ''_ecc'');
          cert_dir_rsa = path_join (acme_home_dir env cfg) domain;
          cert_dir = (if path_exists env (trace w) cert_dir_ecc then cert_dir_ecc
                      else cert_dir_rsa)
      in \<lparr>cert = path_join cert_dir ''fullchain.cer'',
          key = path_join cert_dir (domain @ ''.key''),
          ca = path_join cert_dir ''ca.cer''\<rparr>)"

text \<open>Lines 213-223.\<close>

definition check_certificate_exists :: "env \<Rightarrow> config \<Rightarrow> world \<Rightarrow> string \<Rightarrow> bool" where
  "check_certificate_exists env cfg w domain =
     (let paths = get_certificate_paths env cfg w domain in
      path_exists env (trace w) (cert paths) \<and> path_exists env (trace w) (key paths))"

definition manual_dns_ack :: string where
  "manual_dns_ack = ''--yes-I-know-dns-manual-mode-enough-go-ahead-please''"

text \<open>Lines 234-266: the command line of the first acme.sh run.\<close>

definition first_command :: "env \<Rightarrow> config \<Rightarrow> world \<Rightarrow> string \<Rightarrow> bool \<Rightarrow> string list" where
  "first_command env cfg w domain force_renew =
     (let email_str = (case email cfg of None \<Rightarrow> [] | Some e \<Rightarrow> e);
          server = (case acme_server cfg of None \<Rightarrow> ''letsencrypt'' | Some s \<Rightarrow> s);
          cert_exists = check_certificate_exists env cfg w domain;
          cmd = (if cert_exists \<and> force_renew
                 then [acme_home_dir env cfg @ ''/acme.sh'', ''--renew'', ''--force'',
                       ''-d'', domain, manual_dns_ack]
                 else [acme_home_dir env cfg @ ''/acme.sh'', ''--issue'', ''--dns'',
                       ''-d'', domain, manual_dns_ack]);
          cmd = (if email_str \<noteq> [] then cmd @ [''--accountemail'', email_str] else cmd)
      in if server \<noteq> [] \<and> lower server \<noteq> ''letsencrypt''
         then cmd @ [''--server'', server] else cmd)"

text \<open>Lines 301-306: the command line of the second acme.sh run.\<close>

definition renew_command :: "env \<Rightarrow> config \<Rightarrow> string \<Rightarrow> string list" where
  "renew_command env cfg domain =
     [acme_home_dir env cfg @ ''/acme.sh'', ''--renew'', ''-d'', domain, manual_dns_ack]"

text \<open>Lines 284-288.\<close>

definition report_no_txt_value :: "completed_process \<Rightarrow> world \<Rightarrow> world" where
  "report_no_txt_value result w =
     log_error (ErrAcmeError (stderr result))
       (log_error (ErrAcmeOutput (stdout result))
          (log_error ErrNoTxtValue w))"

text \<open>Lines 225-327.  An exception raised by either \<^verbatim>\<open>subprocess.run\<close> is caught by the
  handler of line 325.\<close>

definition issue_certificate ::
  "env \<Rightarrow> config \<Rightarrow> string \<Rightarrow> bool \<Rightarrow> world \<Rightarrow> bool \<times> world" where
  "issue_certificate env cfg domain force_renew w =
     (let w1 = emit (AcmeRun (first_command env cfg w domain force_renew)) w in
      case subprocess_run env (trace w1) of
        None \<Rightarrow> (False, log_error ErrIssueException w1)
      | Some result \<Rightarrow>
          (case extract_txt_value (stdout result @ stderr result) of
             None \<Rightarrow> (False, report_no_txt_value result w1)
           | Some txt_value \<Rightarrow>
               if txt_value = [] then (False, report_no_txt_value result w1)
               else
                 (let (record_id_opt, w2) = add_dns_txt_record env domain txt_value w1 in
                  case record_id_opt of
                    None \<Rightarrow> (False, log_error ErrAddTxtFailed w2)
                  | Some record_id \<Rightarrow>
                      if record_id = [] then (False, log_error ErrAddTxtFailed w2)
                      else
                        (let w3 = emit (AcmeRun (renew_command env cfg domain)) w2 in
                         case subprocess_run env (trace w3) of
                           None \<Rightarrow> (False, log_error ErrIssueException w3)
                         | Some result_renew \<Rightarrow>
                             (let w4 = delete_dns_txt_record record_id w3 in
                              if returncode result_renew = 0 then (True, w4)
                              else (False,
                                    log_error (ErrIssueFailed (stderr result_renew)) w4))))))"

section \<open>Publishing to the CDN\<close>

text \<open>Lines 433-466.\<close>

definition update_cdn_ssl_config ::
  "env \<Rightarrow> config \<Rightarrow> string \<Rightarrow> string option \<Rightarrow> world \<Rightarrow> bool \<times> world" where
  "update_cdn_ssl_config env cfg domain cert_id w =
     (let url = ''http://api.qiniu.com/domain/'' @ domain @ ''/httpsconf'';
          force = (case force_https cfg of None \<Rightarrow> False | Some b \<Rightarrow> b);
          w1 = emit (PutHttpsConf url cert_id force) w
      in case put_httpsconf env (trace w1) of
           None \<Rightarrow> (False, w1)
         | Some status_code \<Rightarrow> (status_code = 200, w1))"

text \<open>Lines 375-431.\<close>

definition upload_cert_to_qiniu ::
  "env \<Rightarrow> config \<Rightarrow> string \<Rightarrow> world \<Rightarrow> bool \<times> world" where
  "upload_cert_to_qiniu env cfg domain w =
     (let paths = get_certificate_paths env cfg w domain in
      case read_file env (trace w) (cert paths) of
        None \<Rightarrow> (False, w)
      | Some cert_content \<Rightarrow>
          (case read_file env (trace w) (key paths) of
             None \<Rightarrow> (False, w)
           | Some key_content \<Rightarrow>
               (let cert_name = domain @ ''_'' @ strftime env (clock env (trace w));
                    url = ''http://api.qiniu.com/sslcert'';
                    w1 = emit (PostSslCert url cert_name domain key_content cert_content) w
                in case post_sslcert env (trace w1) of
                     None \<Rightarrow> (False, w1)
                   | Some (status_code, cert_id) \<Rightarrow>
                       if status_code = 200
                       then update_cdn_ssl_config env cfg domain cert_id w1
                       else (False, w1))))"

section \<open>The orchestrator\<close>

text \<open>The test of line 502.\<close>

definition has_active_record :: "world \<Rightarrow> string \<Rightarrow> bool" where
  "has_active_record w domain =
     (case cert_records w domain of
        None \<Rightarrow> False
      | Some r \<Rightarrow> status r = Some ''active'')"

text \<open>Lines 518-527, the end of \<^verbatim>\<open>process_domain\<close>: upload, then record.  \<open>Inl\<close> is an
  exception that leaves \<^verbatim>\<open>process_domain\<close>.\<close>

definition upload_and_record ::
  "env \<Rightarrow> config \<Rightarrow> string \<Rightarrow> world \<Rightarrow> (error + bool) \<times> world" where
  "upload_and_record env cfg domain w =
     (case upload_cert_to_qiniu env cfg domain w of
        (False, w1) \<Rightarrow> (Inr False, w1)
      | (True, w1) \<Rightarrow>
          (case update_cert_record env domain w1 of
             (Inl e, w2) \<Rightarrow> (Inl e, w2)
           | (Inr _, w2) \<Rightarrow> (Inr True, w2)))"

text \<open>Lines 481-527.\<close>

definition process_domain ::
  "env \<Rightarrow> config \<Rightarrow> string \<Rightarrow> world \<Rightarrow> (error + bool) \<times> world" where
  "process_domain env cfg domain w =
     (let need_renewal = check_cert_expiry env cfg w domain in
      if \<not> need_renewal then (Inr True, w)
      else
        (let cert_exists = check_certificate_exists env cfg w domain in
         if cert_exists then
           (if has_active_record w domain then
              (case issue_certificate env cfg domain True w of
                 (False, w1) \<Rightarrow> (Inr False, w1)
               | (True, w1) \<Rightarrow> upload_and_record env cfg domain w1)
            else upload_and_record env cfg domain w)
         else
           (case issue_certificate env cfg domain False w of
              (False, w1) \<Rightarrow> (Inr False, w1)
            | (True, w1) \<Rightarrow> upload_and_record env cfg domain w1)))"

text \<open>Lines 545-553: the loop of \<^verbatim>\<open>run\<close> with its two counters.  An exception of
  \<^verbatim>\<open>process_domain\<close> is caught and counted; what was done before it stays done.\<close>

fun run_loop ::
  "env \<Rightarrow> config \<Rightarrow> string list \<Rightarrow> nat \<times> nat \<Rightarrow> world \<Rightarrow> (nat \<times> nat) \<times> world" where
  "run_loop env cfg [] (success_count, fail_count) w = ((success_count, fail_count), w)"
| "run_loop env cfg (domain # rest) (success_count, fail_count) w =
     (case process_domain env cfg domain w of
        (Inr True, w1) \<Rightarrow> run_loop env cfg rest (success_count + 1, fail_count) w1
      | (Inr False, w1) \<Rightarrow> run_loop env cfg rest (success_count, fail_count + 1) w1
      | (Inl e, w1) \<Rightarrow> run_loop env cfg rest (success_count, fail_count + 1) w1)"

text \<open>Lines 529-559.  Without configured domains \<^verbatim>\<open>run\<close> returns before the counters
  exist: there is no tally.\<close>

definition run :: "env \<Rightarrow> config \<Rightarrow> world \<Rightarrow> (nat \<times> nat) option \<times> world" where
  "run env cfg w =
     (if domains cfg = [] then (None, w)
      else (case run_loop env cfg (domains cfg) (0, 0) w of
              (tally, w1) \<Rightarrow> (Some tally, w1)))"

section \<open>Notions used to state the properties\<close>

text \<open>The text of a line between its first \<open>=\<close> and the next \<open>=\<close>, or the end of the line
  when there is no second one.\<close>

definition text_between_eq :: "string \<Rightarrow> string" where
  "text_between_eq line =
     takeWhile (\<lambda>c. c \<noteq> CHR ''='') (tl (dropWhile (\<lambda>c. c \<noteq> CHR ''='') line))"

text \<open>That text, trimmed and with the quote characters stripped from both ends.\<close>

definition challenge_token :: "string \<Rightarrow> string" where
  "challenge_token line = strip_chars [squote, dquote] (strip (text_between_eq line))"

text \<open>The whole text of a line after its first \<open>=\<close>, trimmed and quote-stripped.\<close>

definition token_after_eq :: "string \<Rightarrow> string" where
  "token_after_eq line =
     strip_chars [squote, dquote] (strip (tl (dropWhile (\<lambda>c. c \<noteq> CHR ''='') line)))"

text \<open>The entry \<^verbatim>\<open>update_cert_record\<close> stores (lines 471-477), when called in state \<open>w\<close>.\<close>

definition new_entry :: "env \<Rightarrow> world \<Rightarrow> cert_record" where
  "new_entry env w =
     \<lparr>expiry_date = Some (isoformat env (clock env (trace w) + 90 * usec_per_day)),
      updated_at = Some (isoformat env (clock env (trace w))),
      status = Some ''active''\<rparr>"

text \<open>What \<^verbatim>\<open>process_domain\<close> yields for each domain of a list, in order, each call starting
  in the state the previous one left.\<close>

fun outcomes :: "env \<Rightarrow> config \<Rightarrow> string list \<Rightarrow> world \<Rightarrow> (error + bool) list" where
  "outcomes env cfg [] w = []"
| "outcomes env cfg (domain # rest) w =
     (case process_domain env cfg domain w of (r, w1) \<Rightarrow> r # outcomes env cfg rest w1)"

text \<open>A failed cycle: \<^verbatim>\<open>process_domain\<close> raises, or returns false.\<close>

fun failed :: "error + bool \<Rightarrow> bool" where
  "failed (Inl e) = True"
| "failed (Inr ok) = (\<not> ok)"

text \<open>The calls made for issuance: acme.sh runs, DNS requests and the wait.\<close>

fun issuance_event :: "event \<Rightarrow> bool" where
  "issuance_event (AcmeRun cmd) = True"
| "issuance_event (DescribeDomainRecords d rr ty) = True"
| "issuance_event (UpdateDomainRecord rid rr ty v) = True"
| "issuance_event (AddDomainRecord d rr ty v) = True"
| "issuance_event (DeleteDomainRecord rid) = True"
| "issuance_event (Sleep n) = True"
| "issuance_event (PostSslCert url name cn pri chain) = False"
| "issuance_event (PutHttpsConf url cid force) = False"
| "issuance_event WriteRecordFile = False"

section \<open>A sample configuration and environment\<close>

text \<open>
  Concrete inputs on which the statements below are evaluated.  Time 0 stands for
  2025-01-01T00:00:00; the sample \<open>fromisoformat\<close> and \<open>isoformat\<close> know the few dates
  that occur.  The domain y.example.com has its certificate files under /opt/acme.
\<close>

definition demo_fromisoformat :: "string \<Rightarrow> int option" where
  "demo_fromisoformat s =
     (if s = ''2025-01-31T00:00:00'' then Some (30 * usec_per_day)
      else if s = ''2025-02-01T00:00:00'' then Some (31 * usec_per_day)
      else if s = ''2025-03-02T00:00:00'' then Some (60 * usec_per_day)
      else if s = ''2025-03-03T00:00:00'' then Some (61 * usec_per_day)
      else if s = ''2025-04-01T00:00:00'' then Some (90 * usec_per_day)
      else None)"

definition demo_isoformat :: "int \<Rightarrow> string" where
  "demo_isoformat t =
     (if t = 90 * usec_per_day then ''2025-04-01T00:00:00'' else ''2025-01-01T00:00:00'')"

definition challenge_output :: completed_process where
  "challenge_output =
     \<lparr>returncode = 1, stdout = ''TXT value: '' @ [squote] @ ''abc123'' @ [squote],
      stderr = []\<rparr>"

text \<open>The first acme.sh run prints the challenge, the second one succeeds.\<close>

definition demo_acme :: "event list \<Rightarrow> completed_process option" where
  "demo_acme tr =
     (case rev tr of
        AcmeRun cmd # _ \<Rightarrow>
          if ''--dns'' \<in> set cmd \<or> ''--force'' \<in> set cmd then Some challenge_output
          else Some \<lparr>returncode = 0, stdout = [], stderr = []\<rparr>
      | _ \<Rightarrow> None)"

text \<open>The second acme.sh run raises.\<close>

definition raising_acme :: "event list \<Rightarrow> completed_process option" where
  "raising_acme tr =
     (case rev tr of
        AcmeRun cmd # _ \<Rightarrow>
          if ''--dns'' \<in> set cmd \<or> ''--force'' \<in> set cmd then Some challenge_output
          else None
      | _ \<Rightarrow> None)"

definition demo_files :: "string list" where
  "demo_files =
     [''/opt/acme/y.example.com_ecc'',
      ''/opt/acme/y.example.com_ecc/fullchain.cer'',
      ''/opt/acme/y.example.com_ecc/y.example.com.key'']"

definition demo_env :: env where
  "demo_env =
     \<lparr>clock = (\<lambda>tr. 0),
      fromisoformat = demo_fromisoformat,
      isoformat = demo_isoformat,
      strftime = (\<lambda>t. ''20250101000000''),
      expanduser = (\<lambda>p. p),
      path_exists = (\<lambda>tr p. p \<in> set demo_files),
      read_file = (\<lambda>tr p. Some ''PEM''),
      subprocess_run = demo_acme,
      describe_records = (\<lambda>tr. Some []),
      update_record = (\<lambda>tr. True),
      add_record = (\<lambda>tr. Some ''rid-1''),
      post_sslcert = (\<lambda>tr. Some (200, Some ''cert-1'')),
      put_httpsconf = (\<lambda>tr. Some 200),
      write_record_file = (\<lambda>tr. Written)\<rparr>"

definition env_write_fails :: env where
  "env_write_fails = demo_env\<lparr>write_record_file := (\<lambda>tr. OpenFailed)\<rparr>"

definition env_renew_raises :: env where
  "env_renew_raises = demo_env\<lparr>subprocess_run := raising_acme\<rparr>"

definition env_existing_record :: env where
  "env_existing_record = demo_env\<lparr>describe_records := (\<lambda>tr. Some [''rid-0''])\<rparr>"

definition env_update_raises :: env where
  "env_update_raises = env_existing_record\<lparr>update_record := (\<lambda>tr. False)\<rparr>"

definition env_no_marker :: env where
  "env_no_marker =
     demo_env\<lparr>subprocess_run :=
       (\<lambda>tr. Some \<lparr>returncode = 1, stdout = ''rate limited'', stderr = ''try later''\<rparr>)\<rparr>"

definition demo_cfg :: config where
  "demo_cfg =
     \<lparr>domains = [''y.example.com''], renewal_days_before_expiry = None,
      acme_home = Some ''/opt/acme'', email = None, acme_server = None,
      force_https = None\<rparr>"

definition empty_world :: world where
  "empty_world = \<lparr>cert_records = Map.empty, record_file = None, trace = [], errlog = []\<rparr>"

definition demo_record :: "string \<Rightarrow> cert_record" where
  "demo_record expiry =
     \<lparr>expiry_date = Some expiry, updated_at = Some ''2025-01-01T00:00:00'',
      status = Some ''active''\<rparr>"

definition world_expiring :: "string \<Rightarrow> world" where
  "world_expiring expiry =
     \<lparr>cert_records = [''y.example.com'' \<mapsto> demo_record expiry], record_file = None,
      trace = [], errlog = []\<rparr>"

definition two_domains_cfg :: config where
  "two_domains_cfg = demo_cfg\<lparr>domains := [''y.example.com'', ''x.example.com'']\<rparr>"

text \<open>The sample configuration with \<^verbatim>\<open>renewal_days_before_expiry\<close> set to 60.\<close>

definition cfg_threshold_60 :: config where
  "cfg_threshold_60 = demo_cfg\<lparr>renewal_days_before_expiry := Some 60\<rparr>"

section \<open>Lemmas on the string operations\<close>

lemma split_on_nonempty: "split_on c s \<noteq> []"
  by (induction s) (auto split: list.splits)

lemma split_on_hd: "hd (split_on c s) = takeWhile (\<lambda>x. x \<noteq> c) s"
  by (induction s) (auto split: list.splits simp: split_on_nonempty)

lemma length_split_on: "(length (split_on c s) \<ge> 2) = (c \<in> set s)"
proof (induction s)
  case Nil
  then show ?case by simp
next
  case (Cons x xs)
  obtain p ps where ps: "split_on c xs = p # ps"
    using split_on_nonempty by (cases "split_on c xs") auto
  show ?case using Cons ps by auto
qed

lemma split_on_second:
  "c \<in> set s \<Longrightarrow>
     split_on c s ! Suc 0 = takeWhile (\<lambda>x. x \<noteq> c) (tl (dropWhile (\<lambda>x. x \<noteq> c) s))"
proof (induction s)
  case Nil
  then show ?case by simp
next
  case (Cons x xs)
  obtain p ps where ps: "split_on c xs = p # ps"
    using split_on_nonempty by (cases "split_on c xs") auto
  show ?case
  proof (cases "x = c")
    case True
    have "hd (split_on c xs) = takeWhile (\<lambda>x. x \<noteq> c) xs" by (rule split_on_hd)
    then show ?thesis using True ps by simp
  next
    case False
    then have "c \<in> set xs" using Cons.prems by simp
    then show ?thesis using False ps Cons.IH by simp
  qed
qed

lemma contains_single: "contains [c] s = (c \<in> set s)"
  by (induction s) auto

lemma challenge_value_marked:
  "has_challenge_marker line \<Longrightarrow> challenge_value line = Some (challenge_token line)"
  by (simp add: has_challenge_marker_def challenge_value_def challenge_token_def
      text_between_eq_def contains_single length_split_on split_on_second Let_def)

lemma scan_txt_value_None:
  "\<forall>line \<in> set ls. \<not> has_txt_marker line \<Longrightarrow> scan_txt_value ls = None"
  by (induction ls) auto

lemma scan_challenge_None:
  "\<forall>line \<in> set ls. \<not> has_challenge_marker line \<Longrightarrow> scan_challenge ls = None"
  by (induction ls) auto

lemma scan_challenge_nonempty: "scan_challenge ls \<noteq> Some []"
  by (induction ls) (auto split: option.splits)

lemma scan_challenge_filter:
  "scan_challenge ls =
     (case filter (\<lambda>line. has_challenge_marker line \<and> challenge_token line \<noteq> []) ls of
        [] \<Rightarrow> None
      | line # _ \<Rightarrow> Some (challenge_token line))"
  by (induction ls) (auto simp: challenge_value_marked)

lemma extract_txt_value_unmarked:
  assumes "\<forall>line \<in> set (split_on newline output). \<not> has_txt_marker line"
  shows "extract_txt_value output = scan_challenge (split_on newline output)"
  using scan_txt_value_None [OF assms] by (simp add: extract_txt_value_def)

section \<open>Lemmas on the state\<close>

lemma emit_simps [simp]:
  "trace (emit e w) = trace w @ [e]"
  "cert_records (emit e w) = cert_records w"
  "record_file (emit e w) = record_file w"
  "errlog (emit e w) = errlog w"
  by (simp_all add: emit_def)

lemma log_error_simps [simp]:
  "trace (log_error m w) = trace w"
  "cert_records (log_error m w) = cert_records w"
  "record_file (log_error m w) = record_file w"
  "errlog (log_error m w) = errlog w @ [m]"
  by (simp_all add: log_error_def)

lemma report_no_txt_value_simps [simp]:
  "trace (report_no_txt_value r w) = trace w"
  "cert_records (report_no_txt_value r w) = cert_records w"
  "record_file (report_no_txt_value r w) = record_file w"
  "errlog (report_no_txt_value r w) = errlog w @ [ErrNoTxtValue, ErrAcmeOutput (stdout r), ErrAcmeError (stderr r)]"
  by (simp_all add: report_no_txt_value_def)

lemma days_between_lower:
  assumes "n * usec_per_day \<le> expiry - now"
  shows "n \<le> days_between now expiry"
proof -
  have "(n * usec_per_day) div usec_per_day \<le> (expiry - now) div usec_per_day"
    using assms by (intro zdiv_mono1) (simp_all add: usec_per_day_def)
  then show ?thesis by (simp add: days_between_def usec_per_day_def)
qed

lemma days_between_exact: "days_between now (now + n * usec_per_day) = n"
  by (simp add: days_between_def usec_per_day_def)

lemma update_cert_record_cases:
  assumes "update_cert_record env domain w = (r, w')"
  shows "cert_records w' = (cert_records w)(domain \<mapsto> new_entry env w)"
    and "trace w' = trace w @ [WriteRecordFile]"
    and "r = Inr () \<longleftrightarrow> write_record_file env (trace w @ [WriteRecordFile]) = Written"
    and "r = Inr () \<Longrightarrow> record_file w' = Some (cert_records w')"
    and "r \<noteq> Inr () \<Longrightarrow>
           r = Inl OSError \<and> (record_file w' = record_file w \<or> record_file w' = None)"
  using assms
  by (auto simp: update_cert_record_def save_cert_records_def Let_def emit_def new_entry_def
      split: write_outcome.splits)

section \<open>Lemmas on the loop of run\<close>

lemma length_outcomes: "length (outcomes env cfg ds w) = length ds"
  by (induction ds arbitrary: w) (auto split: prod.splits)

lemma run_loop_counts:
  "fst (run_loop env cfg ds (s, f) w) =
     (s + length (filter (\<lambda>r. r = Inr True) (outcomes env cfg ds w)),
      f + length (filter failed (outcomes env cfg ds w)))"
proof (induction ds arbitrary: s f w)
  case Nil
  then show ?case by simp
next
  case (Cons d ds)
  obtain r w1 where pd: "process_domain env cfg d w = (r, w1)"
    by (cases "process_domain env cfg d w")
  show ?case
  proof (cases r)
    case (Inl e)
    then show ?thesis using pd Cons.IH [of s "f + 1" w1] by simp
  next
    case (Inr ok)
    then show ?thesis using pd Cons.IH [of "s + 1" f w1] Cons.IH [of s "f + 1" w1]
      by (cases ok) simp_all
  qed
qed

lemma succeeded_or_failed:
  "length (filter (\<lambda>r. r = Inr True) rs) + length (filter failed rs) = length rs"
proof (induction rs)
  case Nil
  then show ?case by simp
next
  case (Cons r rs)
  then show ?case by (cases r) auto
qed

section \<open>What each step leaves unchanged\<close>

lemma find_dns_record_store:
  "find_dns_record env root rr ty w = (r, w') \<Longrightarrow>
     cert_records w' = cert_records w \<and> record_file w' = record_file w"
  by (auto simp: find_dns_record_def Let_def split: option.splits list.splits)

lemma add_dns_txt_record_store:
  "add_dns_txt_record env domain v w = (r, w') \<Longrightarrow>
     cert_records w' = cert_records w \<and> record_file w' = record_file w"
  by (auto simp: add_dns_txt_record_def find_dns_record_def Let_def
      split: option.splits list.splits if_splits)

lemma delete_dns_txt_record_store [simp]:
  "cert_records (delete_dns_txt_record rid w) = cert_records w"
  "record_file (delete_dns_txt_record rid w) = record_file w"
  by (simp_all add: delete_dns_txt_record_def)

lemma issue_certificate_store:
  assumes "issue_certificate env cfg domain force w = (ok, w')"
  shows "cert_records w' = cert_records w \<and> record_file w' = record_file w"
proof -
  let ?w1 = "emit (AcmeRun (first_command env cfg w domain force)) w"
  have *: "\<And>v r w2. add_dns_txt_record env domain v ?w1 = (r, w2) \<Longrightarrow>
     cert_records w2 = cert_records w \<and> record_file w2 = record_file w"
    using add_dns_txt_record_store by fastforce
  show ?thesis using assms
    by (auto simp: issue_certificate_def Let_def dest!: *
        split: option.splits if_splits prod.splits)
qed

lemma update_cdn_ssl_config_store:
  "update_cdn_ssl_config env cfg domain cid w = (ok, w') \<Longrightarrow>
     cert_records w' = cert_records w \<and> record_file w' = record_file w"
  by (auto simp: update_cdn_ssl_config_def Let_def split: option.splits)

lemma upload_cert_to_qiniu_store:
  "upload_cert_to_qiniu env cfg domain w = (ok, w') \<Longrightarrow>
     cert_records w' = cert_records w \<and> record_file w' = record_file w"
  by (auto simp: upload_cert_to_qiniu_def Let_def dest!: update_cdn_ssl_config_store
      split: option.splits if_splits prod.splits)

lemma upload_and_record_False:
  assumes "upload_and_record env cfg domain w = (Inr False, w')"
  shows "cert_records w' = cert_records w \<and> record_file w' = record_file w"
proof -
  obtain ok w1 where up: "upload_cert_to_qiniu env cfg domain w = (ok, w1)"
    by (cases "upload_cert_to_qiniu env cfg domain w")
  obtain r w2 where rec: "update_cert_record env domain w1 = (r, w2)"
    by (cases "update_cert_record env domain w1")
  from assms up rec have "\<not> ok \<and> w1 = w'"
    by (cases ok; cases r) (simp_all add: upload_and_record_def)
  then show ?thesis using upload_cert_to_qiniu_store [OF up] by simp
qed

lemma upload_and_record_Inl:
  assumes "upload_and_record env cfg domain w = (Inl e, w')"
  shows "\<exists>w1. upload_cert_to_qiniu env cfg domain w = (True, w1) \<and>
              write_record_file env (trace w1 @ [WriteRecordFile]) \<noteq> Written \<and>
              cert_records w' = (cert_records w)(domain \<mapsto> new_entry env w1) \<and>
              (record_file w' = record_file w \<or> record_file w' = None)"
proof -
  obtain ok w1 where up: "upload_cert_to_qiniu env cfg domain w = (ok, w1)"
    by (cases "upload_cert_to_qiniu env cfg domain w")
  obtain r w2 where rec: "update_cert_record env domain w1 = (r, w2)"
    by (cases "update_cert_record env domain w1")
  from assms up rec have ok: "ok" and r: "r = Inl e" and w2: "w2 = w'"
    by (cases ok; cases r; simp add: upload_and_record_def)+
  have nr: "r \<noteq> Inr ()" using r by simp
  have store: "cert_records w1 = cert_records w \<and> record_file w1 = record_file w"
    using upload_cert_to_qiniu_store [OF up] .
  have "cert_records w2 = (cert_records w1)(domain \<mapsto> new_entry env w1)"
    using update_cert_record_cases(1) [OF rec] .
  moreover have "record_file w2 = record_file w1 \<or> record_file w2 = None"
    using update_cert_record_cases(5) [OF rec nr] by simp
  moreover have "write_record_file env (trace w1 @ [WriteRecordFile]) \<noteq> Written"
    using update_cert_record_cases(3) [OF rec] nr by simp
  ultimately show ?thesis using up ok w2 store by auto
qed

lemma upload_and_record_written:
  assumes up: "upload_cert_to_qiniu env cfg domain w = (True, w1)"
      and wr: "write_record_file env (trace w1 @ [WriteRecordFile]) = Written"
  shows "\<exists>w2. upload_and_record env cfg domain w = (Inr True, w2) \<and>
              cert_records w2 = (cert_records w)(domain \<mapsto> new_entry env w1) \<and>
              record_file w2 = Some (cert_records w2)"
proof -
  obtain r w2 where rec: "update_cert_record env domain w1 = (r, w2)"
    by (cases "update_cert_record env domain w1")
  have r: "r = Inr ()" using update_cert_record_cases(3) [OF rec] wr by simp
  have "upload_and_record env cfg domain w = (Inr True, w2)"
    using up rec r by (simp add: upload_and_record_def)
  moreover have "cert_records w2 = (cert_records w)(domain \<mapsto> new_entry env w1)"
    using update_cert_record_cases(1) [OF rec] upload_cert_to_qiniu_store [OF up] by simp
  moreover have "record_file w2 = Some (cert_records w2)"
    using update_cert_record_cases(4) [OF rec r] .
  ultimately show ?thesis by blast
qed

lemma upload_and_record_not_written:
  assumes up: "upload_cert_to_qiniu env cfg domain w = (True, w1)"
      and wr: "write_record_file env (trace w1 @ [WriteRecordFile]) \<noteq> Written"
  shows "\<exists>w2. upload_and_record env cfg domain w = (Inl OSError, w2) \<and>
              cert_records w2 = (cert_records w)(domain \<mapsto> new_entry env w1)"
proof -
  obtain r w2 where rec: "update_cert_record env domain w1 = (r, w2)"
    by (cases "update_cert_record env domain w1")
  have nr: "r \<noteq> Inr ()" using update_cert_record_cases(3) [OF rec] wr by simp
  have r: "r = Inl OSError" using update_cert_record_cases(5) [OF rec nr] by simp
  have "upload_and_record env cfg domain w = (Inl OSError, w2)"
    using up rec r by (simp add: upload_and_record_def)
  moreover have "cert_records w2 = (cert_records w)(domain \<mapsto> new_entry env w1)"
    using update_cert_record_cases(1) [OF rec] upload_cert_to_qiniu_store [OF up] by simp
  ultimately show ?thesis by blast
qed

text \<open>How a cycle ends: in the issuance, or in the upload and the recording.\<close>

lemma process_domain_cases:
  assumes "process_domain env cfg domain w = (r, w')" and "r \<noteq> Inr True"
  shows "(\<exists>force. issue_certificate env cfg domain force w = (False, w') \<and> r = Inr False)
       \<or> (\<exists>w1. cert_records w1 = cert_records w \<and> record_file w1 = record_file w \<and>
                upload_and_record env cfg domain w1 = (r, w'))"
proof -
  have *: "\<exists>w1. cert_records w1 = cert_records w \<and> record_file w1 = record_file w \<and>
                upload_and_record env cfg domain w1 = (r, w')"
    if "issue_certificate env cfg domain force w = (True, w1)"
       "upload_and_record env cfg domain w1 = (r, w')" for force w1
    using that issue_certificate_store [OF that(1)] by blast
  show ?thesis
  proof (cases "check_cert_expiry env cfg w domain")
    case False
    then show ?thesis using assms by (simp add: process_domain_def)
  next
    case need: True
    show ?thesis
    proof (cases "check_certificate_exists env cfg w domain \<and> \<not> has_active_record w domain")
      case True
      then have "upload_and_record env cfg domain w = (r, w')"
        using assms(1) need by (simp add: process_domain_def)
      then show ?thesis by blast
    next
      case False
      define force where "force = check_certificate_exists env cfg w domain"
      obtain ok w1 where iss: "issue_certificate env cfg domain force w = (ok, w1)"
        by (cases "issue_certificate env cfg domain force w")
      have pd: "process_domain env cfg domain w =
          (if ok then upload_and_record env cfg domain w1 else (Inr False, w1))"
        using need False iss by (auto simp: process_domain_def force_def)
      show ?thesis
      proof (cases ok)
        case True
        then show ?thesis using pd assms(1) iss * by auto
      next
        case False
        then show ?thesis using pd assms(1) iss by auto
      qed
    qed
  qed
qed

section \<open>Lemmas on the calls made\<close>

lemma first_command_forced:
  assumes "check_certificate_exists env cfg w domain"
  shows "\<exists>extra. first_command env cfg w domain True =
           [acme_home_dir env cfg @ ''/acme.sh'', ''--renew'', ''--force'', ''-d'', domain,
            manual_dns_ack] @ extra"
  using assms by (simp add: first_command_def Let_def)

lemma add_dns_txt_record_trace:
  "\<exists>evs. trace (snd (add_dns_txt_record env domain v w)) = trace w @ evs"
  by (simp add: add_dns_txt_record_def find_dns_record_def Let_def
      split: option.splits list.splits prod.splits)

lemma issue_certificate_first_event:
  "\<exists>evs. trace (snd (issue_certificate env cfg domain force w)) =
          trace w @ AcmeRun (first_command env cfg w domain force) # evs"
proof -
  define c where "c = first_command env cfg w domain force"
  define P where "P w' \<longleftrightarrow> (\<exists>evs. trace w' = trace w @ AcmeRun c # evs)"
    for w' :: world
  let ?w1 = "emit (AcmeRun c) w"
  have start: "P ?w1" by (simp add: P_def)
  have emit: "P (emit e x)" if "P x" for e x
    using that by (auto simp: P_def)
  have log: "P (log_error m x)" if "P x" for m x
    using that by (simp add: P_def)
  have report: "P (report_no_txt_value r x)" if "P x" for r x
    using that by (simp add: P_def)
  have delete: "P (delete_dns_txt_record rid x)" if "P x" for rid x
    using that emit by (simp add: delete_dns_txt_record_def)
  have add: "P (snd (add_dns_txt_record env domain v ?w1))" for v
    using add_dns_txt_record_trace [of env domain v ?w1] by (auto simp: P_def)
  have "P (snd (issue_certificate env cfg domain force w))"
    unfolding issue_certificate_def Let_def c_def [symmetric]
    by (simp add: start emit log report delete add split_beta
        split: option.splits)
  then show ?thesis by (simp add: P_def c_def)
qed

lemma update_cdn_ssl_config_events:
  "filter issuance_event (trace (snd (update_cdn_ssl_config env cfg domain cid w))) =
   filter issuance_event (trace w)"
  by (simp add: update_cdn_ssl_config_def Let_def split: option.splits)

lemma upload_cert_to_qiniu_events:
  "filter issuance_event (trace (snd (upload_cert_to_qiniu env cfg domain w))) =
   filter issuance_event (trace w)"
  by (simp add: upload_cert_to_qiniu_def Let_def update_cdn_ssl_config_events
      split: option.splits prod.splits)

lemma upload_and_record_events:
  "filter issuance_event (trace (snd (upload_and_record env cfg domain w))) =
   filter issuance_event (trace w)"
proof -
  obtain ok w1 where up: "upload_cert_to_qiniu env cfg domain w = (ok, w1)"
    by (cases "upload_cert_to_qiniu env cfg domain w")
  obtain r w2 where rec: "update_cert_record env domain w1 = (r, w2)"
    by (cases "update_cert_record env domain w1")
  have e1: "filter issuance_event (trace w1) = filter issuance_event (trace w)"
    using upload_cert_to_qiniu_events [of env cfg domain w] up by simp
  have e2: "filter issuance_event (trace w2) = filter issuance_event (trace w1)"
    using update_cert_record_cases(2) [OF rec] by simp
  show ?thesis
    using up rec e1 e2 by (cases ok; cases r) (simp_all add: upload_and_record_def)
qed

section \<open>Extraction of the challenge value\<close>

text \<open>
  Claim C10.  For every captured output in which no line contains a \<open>TXT value\<close> marker,
  \<^verbatim>\<open>_extract_txt_value\<close> never returns the empty string: a line of the second heuristic
  whose value is empty after trimming and quote-stripping is skipped, so the result is
  \<open>None\<close> or a non-empty string.
\<close>

theorem extract_txt_value_never_empty:
  assumes "\<forall>line \<in> set (split_on newline output). \<not> has_txt_marker line"
  shows "extract_txt_value output \<noteq> Some []"
  using extract_txt_value_unmarked [OF assms] scan_challenge_nonempty by simp

theorem extract_txt_value_never_empty_witness:
  "split_on newline ''_acme-challenge.x= '' = [''_acme-challenge.x= ''] \<and>
   \<not> has_txt_marker ''_acme-challenge.x= '' \<and>
   extract_txt_value ''_acme-challenge.x= '' = None \<and>
   extract_txt_value ''_acme-challenge.x= '' \<noteq> Some []"
proof -
  have lines: "split_on newline ''_acme-challenge.x= '' = [''_acme-challenge.x= '']"
    by code_simp
  have unmarked: "\<not> has_txt_marker ''_acme-challenge.x= ''"
    by code_simp
  have none: "extract_txt_value ''_acme-challenge.x= '' = None"
    by code_simp
  have "\<forall>line \<in> set (split_on newline ''_acme-challenge.x= ''). \<not> has_txt_marker line"
    using lines unmarked by simp
  from extract_txt_value_never_empty [OF this] lines unmarked none show ?thesis by simp
qed

text \<open>
  Claim C4 as stated fails: with two \<open>=\<close> on the line the code returns only the text up to
  the second one (\<^verbatim>\<open>line.split('=')[1]\<close>), here \<open>abc\<close> and not \<open>abc=def\<close>.
\<close>

theorem extract_txt_value_after_eq_counterexample:
  "split_on newline ''_acme-challenge.x=abc=def'' = [''_acme-challenge.x=abc=def''] \<and>
   \<not> has_txt_marker ''_acme-challenge.x=abc=def'' \<and>
   has_challenge_marker ''_acme-challenge.x=abc=def'' \<and>
   token_after_eq ''_acme-challenge.x=abc=def'' = ''abc=def'' \<and>
   extract_txt_value ''_acme-challenge.x=abc=def'' = Some ''abc''"
  by code_simp

text \<open>
  Claim C4, amended.  For every captured output in which no line contains a \<open>TXT value\<close>
  marker, \<^verbatim>\<open>_extract_txt_value\<close> returns the trimmed, quote-stripped text between the first
  \<open>=\<close> and the next \<open>=\<close> (or the end of the line) of the first line that contains
  \<open>_acme-challenge\<close> and \<open>=\<close> and on which that text is not empty; it returns \<open>None\<close> when
  there is no such line.
\<close>

theorem extract_txt_value_challenge_line:
  assumes "\<forall>line \<in> set (split_on newline output). \<not> has_txt_marker line"
  shows "extract_txt_value output =
           (case filter (\<lambda>line. has_challenge_marker line \<and> challenge_token line \<noteq> [])
                   (split_on newline output) of
              [] \<Rightarrow> None
            | line # _ \<Rightarrow> Some (challenge_token line))"
  using extract_txt_value_unmarked [OF assms] scan_challenge_filter by simp

theorem extract_txt_value_challenge_line_witness:
  "split_on newline (''_acme-challenge.x= '' @ [newline] @ ''_acme-challenge.y=tok='') =
     [''_acme-challenge.x= '', ''_acme-challenge.y=tok=''] \<and>
   \<not> has_txt_marker ''_acme-challenge.x= '' \<and>
   \<not> has_txt_marker ''_acme-challenge.y=tok='' \<and>
   challenge_token ''_acme-challenge.x= '' = [] \<and>
   challenge_token ''_acme-challenge.y=tok='' = ''tok'' \<and>
   extract_txt_value (''_acme-challenge.x= '' @ [newline] @ ''_acme-challenge.y=tok='') =
     Some ''tok''"
proof -
  let ?out = "''_acme-challenge.x= '' @ [newline] @ ''_acme-challenge.y=tok=''"
  have lines: "split_on newline ?out = [''_acme-challenge.x= '', ''_acme-challenge.y=tok='']"
    by code_simp
  have u1: "\<not> has_txt_marker ''_acme-challenge.x= ''" by code_simp
  have u2: "\<not> has_txt_marker ''_acme-challenge.y=tok=''" by code_simp
  have t1: "challenge_token ''_acme-challenge.x= '' = []" by code_simp
  have t2: "challenge_token ''_acme-challenge.y=tok='' = ''tok''" by code_simp
  have m2: "has_challenge_marker ''_acme-challenge.y=tok=''" by code_simp
  have "\<forall>line \<in> set (split_on newline ?out). \<not> has_txt_marker line"
    using lines u1 u2 by simp
  from extract_txt_value_challenge_line [OF this] lines u1 u2 t1 t2 m2
  show ?thesis by simp
qed

section \<open>The renewal check\<close>

text \<open>
  Claim C1.  For every domain and threshold, \<^verbatim>\<open>check_cert_expiry\<close> returns true if and only
  if the domain has no record in the store, or the record's \<^verbatim>\<open>expiry_date\<close> is absent
  (missing or empty) or unparseable (the \<^verbatim>\<open>try\<close> block raises, \<open>fromisoformat\<close> being
  \<open>None\<close>), or the number of whole days from now until \<^verbatim>\<open>expiry_date\<close> (the difference in
  microseconds divided by 86400000000, rounded down) is at most the configured threshold:
  the value of \<^verbatim>\<open>renewal_days_before_expiry\<close>, and 30 when the key is missing.  In
  particular it returns true when \<^verbatim>\<open>expiry_date\<close> is exactly the threshold in days ahead,
  and false when it is one day more than that ahead.
\<close>

theorem check_cert_expiry_iff:
  "(check_cert_expiry env cfg w domain \<longleftrightarrow>
      cert_records w domain = None
    \<or> (\<exists>r. cert_records w domain = Some r \<and>
             (expiry_date r = None \<or> expiry_date r = Some [] \<or>
              (\<exists>s. expiry_date r = Some s \<and> fromisoformat env s = None)))
    \<or> (\<exists>r s expiry. cert_records w domain = Some r \<and> expiry_date r = Some s \<and>
             fromisoformat env s = Some expiry \<and>
             (expiry - clock env (trace w)) div 86400000000 \<le>
               (case renewal_days_before_expiry cfg of None \<Rightarrow> 30 | Some n \<Rightarrow> n)))
   \<and> (\<forall>r s. cert_records w domain = Some r \<longrightarrow> expiry_date r = Some s \<longrightarrow> s \<noteq> [] \<longrightarrow>
         (fromisoformat env s =
            Some (clock env (trace w) +
                  (case renewal_days_before_expiry cfg of None \<Rightarrow> 30 | Some n \<Rightarrow> n) *
                  86400000000)
            \<longrightarrow> check_cert_expiry env cfg w domain) \<and>
         (fromisoformat env s =
            Some (clock env (trace w) +
                  ((case renewal_days_before_expiry cfg of None \<Rightarrow> 30 | Some n \<Rightarrow> n) + 1) *
                  86400000000)
            \<longrightarrow> \<not> check_cert_expiry env cfg w domain))"
proof -
  have th: "(case renewal_days_before_expiry cfg of None \<Rightarrow> 30 | Some n \<Rightarrow> n) =
      threshold_days cfg"
    by (simp add: threshold_days_def)
  have days: "(expiry - now) div 86400000000 = days_between now expiry" for now expiry
    by (simp add: days_between_def usec_per_day_def)
  have exact: "days_between now (now + n * 86400000000) = n" for now n
    using days_between_exact [of now n] by (simp add: usec_per_day_def)
  have iff: "check_cert_expiry env cfg w domain \<longleftrightarrow>
      cert_records w domain = None
    \<or> (\<exists>r. cert_records w domain = Some r \<and>
             (expiry_date r = None \<or> expiry_date r = Some [] \<or>
              (\<exists>s. expiry_date r = Some s \<and> fromisoformat env s = None)))
    \<or> (\<exists>r s expiry. cert_records w domain = Some r \<and> expiry_date r = Some s \<and>
             fromisoformat env s = Some expiry \<and>
             days_between (clock env (trace w)) expiry \<le> threshold_days cfg)"
    by (auto simp: check_cert_expiry_def Let_def split: option.splits)
  have at: "check_cert_expiry env cfg w domain"
    if "cert_records w domain = Some r" "expiry_date r = Some s" "s \<noteq> []"
      "fromisoformat env s =
         Some (clock env (trace w) + threshold_days cfg * 86400000000)" for r s
    using that by (simp add: check_cert_expiry_def Let_def exact)
  have beyond: "\<not> check_cert_expiry env cfg w domain"
    if "cert_records w domain = Some r" "expiry_date r = Some s" "s \<noteq> []"
      "fromisoformat env s =
         Some (clock env (trace w) + (threshold_days cfg + 1) * 86400000000)" for r s
  proof -
    have "days_between (clock env (trace w))
        (clock env (trace w) + (threshold_days cfg + 1) * 86400000000) =
        threshold_days cfg + 1"
      by (rule exact)
    then show ?thesis
      using that by (simp add: check_cert_expiry_def Let_def)
  qed
  show ?thesis
    unfolding th days using iff at beyond by blast
qed

theorem check_cert_expiry_iff_witness:
  "renewal_days_before_expiry demo_cfg = None \<and>
   renewal_days_before_expiry cfg_threshold_60 = Some 60 \<and>
   check_cert_expiry demo_env demo_cfg empty_world ''y.example.com'' \<and>
   check_cert_expiry demo_env demo_cfg (world_expiring ''2025-01-31T00:00:00'')
     ''y.example.com'' \<and>
   \<not> check_cert_expiry demo_env demo_cfg (world_expiring ''2025-02-01T00:00:00'')
     ''y.example.com'' \<and>
   check_cert_expiry demo_env cfg_threshold_60 (world_expiring ''2025-02-01T00:00:00'')
     ''y.example.com'' \<and>
   check_cert_expiry demo_env cfg_threshold_60 (world_expiring ''2025-03-02T00:00:00'')
     ''y.example.com'' \<and>
   \<not> check_cert_expiry demo_env cfg_threshold_60 (world_expiring ''2025-03-03T00:00:00'')
     ''y.example.com''"
proof -
  let ?d = "''y.example.com''"
  have dflt: "renewal_days_before_expiry demo_cfg = None"
    by (simp add: demo_cfg_def)
  have conf: "renewal_days_before_expiry cfg_threshold_60 = Some 60"
    by (simp add: cfg_threshold_60_def demo_cfg_def)
  have rec: "cert_records (world_expiring s) ?d = Some (demo_record s)" for s
    by (simp add: world_expiring_def)
  have exp: "expiry_date (demo_record s) = Some s" for s
    by (simp add: demo_record_def)
  have now: "clock demo_env (trace (world_expiring s)) = 0" for s
    by (simp add: demo_env_def)
  have none: "cert_records empty_world ?d = None"
    by (simp add: empty_world_def)
  have p30: "fromisoformat demo_env ''2025-01-31T00:00:00'' =
      Some (clock demo_env (trace (world_expiring ''2025-01-31T00:00:00'')) +
            (case renewal_days_before_expiry demo_cfg of None \<Rightarrow> 30 | Some n \<Rightarrow> n) *
            86400000000)"
    by (simp add: dflt now) (simp add: demo_env_def demo_fromisoformat_def usec_per_day_def)
  have p31: "fromisoformat demo_env ''2025-02-01T00:00:00'' =
      Some (clock demo_env (trace (world_expiring ''2025-02-01T00:00:00'')) +
            ((case renewal_days_before_expiry demo_cfg of None \<Rightarrow> 30 | Some n \<Rightarrow> n) + 1) *
            86400000000)"
    by (simp add: dflt now) (simp add: demo_env_def demo_fromisoformat_def usec_per_day_def)
  have p60: "fromisoformat demo_env ''2025-03-02T00:00:00'' =
      Some (clock demo_env (trace (world_expiring ''2025-03-02T00:00:00'')) +
            (case renewal_days_before_expiry cfg_threshold_60 of
               None \<Rightarrow> 30 | Some n \<Rightarrow> n) * 86400000000)"
    by (simp add: conf now) (simp add: demo_env_def demo_fromisoformat_def usec_per_day_def)
  have p61: "fromisoformat demo_env ''2025-03-03T00:00:00'' =
      Some (clock demo_env (trace (world_expiring ''2025-03-03T00:00:00'')) +
            ((case renewal_days_before_expiry cfg_threshold_60 of
                None \<Rightarrow> 30 | Some n \<Rightarrow> n) + 1) * 86400000000)"
    by (simp add: conf now) (simp add: demo_env_def demo_fromisoformat_def usec_per_day_def)
  have q31: "fromisoformat demo_env ''2025-02-01T00:00:00'' = Some (31 * 86400000000)"
    by (simp add: demo_env_def demo_fromisoformat_def usec_per_day_def)
  have ne: "''2025-01-31T00:00:00'' \<noteq> []" "''2025-02-01T00:00:00'' \<noteq> []"
    "''2025-03-02T00:00:00'' \<noteq> []" "''2025-03-03T00:00:00'' \<noteq> []"
    by simp_all
  have c0: "check_cert_expiry demo_env demo_cfg empty_world ?d"
    using check_cert_expiry_iff [of demo_env demo_cfg empty_world ?d, THEN conjunct1] none
    by (simp only: simp_thms)
  have c30: "check_cert_expiry demo_env demo_cfg (world_expiring ''2025-01-31T00:00:00'') ?d"
    by (rule check_cert_expiry_iff [of demo_env demo_cfg
          "world_expiring ''2025-01-31T00:00:00''" ?d, THEN conjunct2, THEN spec, THEN spec,
          THEN mp, OF rec, THEN mp, OF exp, THEN mp, OF ne(1), THEN conjunct1, THEN mp,
          OF p30])
  have c31: "\<not> check_cert_expiry demo_env demo_cfg
      (world_expiring ''2025-02-01T00:00:00'') ?d"
    by (rule check_cert_expiry_iff [of demo_env demo_cfg
          "world_expiring ''2025-02-01T00:00:00''" ?d, THEN conjunct2, THEN spec, THEN spec,
          THEN mp, OF rec, THEN mp, OF exp, THEN mp, OF ne(2), THEN conjunct2, THEN mp,
          OF p31])
  have c60: "check_cert_expiry demo_env cfg_threshold_60
      (world_expiring ''2025-03-02T00:00:00'') ?d"
    by (rule check_cert_expiry_iff [of demo_env cfg_threshold_60
          "world_expiring ''2025-03-02T00:00:00''" ?d, THEN conjunct2, THEN spec, THEN spec,
          THEN mp, OF rec, THEN mp, OF exp, THEN mp, OF ne(3), THEN conjunct1, THEN mp,
          OF p60])
  have c61: "\<not> check_cert_expiry demo_env cfg_threshold_60
      (world_expiring ''2025-03-03T00:00:00'') ?d"
    by (rule check_cert_expiry_iff [of demo_env cfg_threshold_60
          "world_expiring ''2025-03-03T00:00:00''" ?d, THEN conjunct2, THEN spec, THEN spec,
          THEN mp, OF rec, THEN mp, OF exp, THEN mp, OF ne(4), THEN conjunct2, THEN mp,
          OF p61])
  have le: "(31 * 86400000000 - clock demo_env (trace (world_expiring ''2025-02-01T00:00:00'')))
        div 86400000000 \<le>
      (case renewal_days_before_expiry cfg_threshold_60 of None \<Rightarrow> 30 | Some n \<Rightarrow> n)"
    by (simp add: conf now)
  have "\<exists>r s expiry.
      cert_records (world_expiring ''2025-02-01T00:00:00'') ?d = Some r \<and>
      expiry_date r = Some s \<and> fromisoformat demo_env s = Some expiry \<and>
      (expiry - clock demo_env (trace (world_expiring ''2025-02-01T00:00:00'')))
        div 86400000000 \<le>
      (case renewal_days_before_expiry cfg_threshold_60 of None \<Rightarrow> 30 | Some n \<Rightarrow> n)"
    by (intro exI conjI) (rule rec exp q31 le)+
  then have c31': "check_cert_expiry demo_env cfg_threshold_60
      (world_expiring ''2025-02-01T00:00:00'') ?d"
    using check_cert_expiry_iff [of demo_env cfg_threshold_60
        "world_expiring ''2025-02-01T00:00:00''" ?d, THEN conjunct1]
    by (simp only: simp_thms)
  show ?thesis
    by (intro conjI dflt conf c0 c30 c31 c31' c60 c61)
qed

section \<open>Recording a success\<close>

text \<open>
  Claim C7.  For every domain, running \<^verbatim>\<open>update_cert_record\<close> (which records the success
  with the fixed validity of 90 days) and immediately afterwards \<^verbatim>\<open>check_cert_expiry\<close> with
  threshold 30 returns false.  Immediately: the clock read by the check is at most 59 days
  after the one read by the update.  The library is assumed to read back the date it
  printed: \<open>isoformat\<close> gives a non-empty string that \<open>fromisoformat\<close> parses to the same
  time.  It holds whether or not writing the file raises.
\<close>

theorem update_then_check:
  assumes upd: "update_cert_record env domain w = (r, w')"
      and th: "threshold_days cfg = 30"
      and iso: "isoformat env (clock env (trace w) + 90 * usec_per_day) \<noteq> []"
      and rt: "fromisoformat env (isoformat env (clock env (trace w) + 90 * usec_per_day)) =
                 Some (clock env (trace w) + 90 * usec_per_day)"
      and soon: "clock env (trace w') \<le> clock env (trace w) + 59 * usec_per_day"
  shows "\<not> check_cert_expiry env cfg w' domain"
proof -
  have "31 * usec_per_day \<le> (clock env (trace w) + 90 * usec_per_day) - clock env (trace w')"
    using soon by (simp add: usec_per_day_def)
  then have "31 \<le> days_between (clock env (trace w')) (clock env (trace w) + 90 * usec_per_day)"
    by (rule days_between_lower)
  then show ?thesis
    using update_cert_record_cases(1) [OF upd] th iso rt
    by (simp add: check_cert_expiry_def Let_def new_entry_def)
qed

theorem update_then_check_witness:
  "threshold_days demo_cfg = 30 \<and>
   isoformat demo_env (clock demo_env (trace empty_world) + 90 * usec_per_day) =
     ''2025-04-01T00:00:00'' \<and>
   fromisoformat demo_env ''2025-04-01T00:00:00'' =
     Some (clock demo_env (trace empty_world) + 90 * usec_per_day) \<and>
   fst (update_cert_record demo_env ''y.example.com'' empty_world) = Inr () \<and>
   \<not> check_cert_expiry demo_env demo_cfg
       (snd (update_cert_record demo_env ''y.example.com'' empty_world)) ''y.example.com''"
proof -
  let ?w' = "snd (update_cert_record demo_env ''y.example.com'' empty_world)"
  have upd: "update_cert_record demo_env ''y.example.com'' empty_world =
      (fst (update_cert_record demo_env ''y.example.com'' empty_world), ?w')"
    by simp
  have th: "threshold_days demo_cfg = 30"
    by (simp add: threshold_days_def demo_cfg_def)
  have now: "clock demo_env tr = 0" for tr
    by (simp add: demo_env_def)
  have iso: "isoformat demo_env (clock demo_env (trace empty_world) + 90 * usec_per_day) =
      ''2025-04-01T00:00:00''"
    by (simp add: now) (simp add: demo_env_def demo_isoformat_def)
  have rt: "fromisoformat demo_env ''2025-04-01T00:00:00'' =
      Some (clock demo_env (trace empty_world) + 90 * usec_per_day)"
    by (simp add: now) (simp add: demo_env_def demo_fromisoformat_def)
  have soon: "clock demo_env (trace ?w') \<le>
      clock demo_env (trace empty_world) + 59 * usec_per_day"
    by (simp add: now usec_per_day_def)
  have ok: "fst (update_cert_record demo_env ''y.example.com'' empty_world) = Inr ()"
    by (simp add: update_cert_record_def save_cert_records_def Let_def emit_def demo_env_def)
  from update_then_check [OF upd th _ _ soon] iso rt
  have "\<not> check_cert_expiry demo_env demo_cfg ?w' ''y.example.com''"
    by simp
  then show ?thesis using th iso rt ok by simp
qed

section \<open>The DNS challenge record\<close>

text \<open>
  Claim C6 as stated fails when the update request itself raises: the request is issued
  with the existing record ID, but the handler of line 177 makes \<^verbatim>\<open>add_dns_txt_record\<close>
  return \<open>None\<close> instead of that ID.
\<close>

theorem add_dns_txt_record_update_raises_counterexample:
  "get_root_domain ''api.example.com'' = ''example.com'' \<and>
   challenge_record_name ''api.example.com'' = ''_acme-challenge.api'' \<and>
   describe_records env_update_raises
     [DescribeDomainRecords ''example.com'' ''_acme-challenge.api'' ''TXT''] =
     Some [''rid-0''] \<and>
   fst (add_dns_txt_record env_update_raises ''api.example.com'' ''abc123'' empty_world) =
     None \<and>
   trace (snd (add_dns_txt_record env_update_raises ''api.example.com'' ''abc123''
                 empty_world)) =
     [DescribeDomainRecords ''example.com'' ''_acme-challenge.api'' ''TXT'',
      UpdateDomainRecord ''rid-0'' ''_acme-challenge.api'' ''TXT'' ''abc123'']"
proof -
  have root: "get_root_domain ''api.example.com'' = ''example.com''" by code_simp
  have name: "challenge_record_name ''api.example.com'' = ''_acme-challenge.api''"
    by code_simp
  show ?thesis
    by (simp add: root name add_dns_txt_record_def find_dns_record_def Let_def
        env_update_raises_def env_existing_record_def demo_env_def empty_world_def)
qed

text \<open>
  Claim C6, amended.  For every (root domain, relative record name) pair for which the
  provider query returns an existing TXT record with a non-empty ID, \<^verbatim>\<open>add_dns_txt_record\<close>
  issues, after the query, exactly one request: an update carrying that record's ID, and
  no create request.  It returns that same ID when the update request returns, and \<open>None\<close>
  when the update request raises.
\<close>

theorem add_dns_txt_record_existing:
  assumes "describe_records env
             (trace w @ [DescribeDomainRecords (get_root_domain domain)
                           (challenge_record_name domain) ''TXT'']) = Some (rid # others)"
      and "rid \<noteq> []"
  shows "add_dns_txt_record env domain record_value w =
           (if update_record env
                 (trace w @ [DescribeDomainRecords (get_root_domain domain)
                               (challenge_record_name domain) ''TXT'',
                             UpdateDomainRecord rid (challenge_record_name domain) ''TXT''
                               record_value])
            then Some rid else None,
            w\<lparr>trace := trace w @
               [DescribeDomainRecords (get_root_domain domain)
                  (challenge_record_name domain) ''TXT'',
                UpdateDomainRecord rid (challenge_record_name domain) ''TXT'' record_value]\<rparr>)"
  using assms
  by (simp add: add_dns_txt_record_def find_dns_record_def Let_def emit_def)

theorem add_dns_txt_record_existing_witness:
  "describe_records env_existing_record
     (trace empty_world @
      [DescribeDomainRecords (get_root_domain ''api.example.com'')
         (challenge_record_name ''api.example.com'') ''TXT'']) = Some [''rid-0''] \<and>
   fst (add_dns_txt_record env_existing_record ''api.example.com'' ''abc123'' empty_world) =
     Some ''rid-0'' \<and>
   trace (snd (add_dns_txt_record env_existing_record ''api.example.com'' ''abc123''
                 empty_world)) =
     [DescribeDomainRecords ''example.com'' ''_acme-challenge.api'' ''TXT'',
      UpdateDomainRecord ''rid-0'' ''_acme-challenge.api'' ''TXT'' ''abc123'']"
proof -
  have root: "get_root_domain ''api.example.com'' = ''example.com''" by code_simp
  have name: "challenge_record_name ''api.example.com'' = ''_acme-challenge.api''"
    by code_simp
  have found: "describe_records env_existing_record
      (trace empty_world @
       [DescribeDomainRecords (get_root_domain ''api.example.com'')
          (challenge_record_name ''api.example.com'') ''TXT'']) = Some (''rid-0'' # [])"
    by (simp add: env_existing_record_def demo_env_def)
  have id: "''rid-0'' \<noteq> []" by simp
  have upd: "update_record env_existing_record tr" for tr
    by (simp add: env_existing_record_def demo_env_def)
  from add_dns_txt_record_existing [OF found id, of "''abc123''"] found upd
  show ?thesis by (simp add: root name empty_world_def)
qed

section \<open>Issuing a certificate\<close>

text \<open>
  Claim C5.  For every captured output (stdout followed by stderr of the first acme.sh
  run) in which no line matches either extraction heuristic, \<^verbatim>\<open>_extract_txt_value\<close> returns
  \<open>None\<close>, and \<^verbatim>\<open>issue_certificate\<close> returns false after logging the could-not-extract
  error and the raw stdout and stderr, without any DNS request or second run; the domain's
  cycle then fails: \<^verbatim>\<open>process_domain\<close>, when it is the caller, returns false and does not
  raise.
\<close>

theorem issue_certificate_no_txt_value:
  assumes run: "subprocess_run env
                  (trace w @ [AcmeRun (first_command env cfg w domain force_renew)]) =
                Some result"
      and unmarked: "\<forall>line \<in> set (split_on newline (stdout result @ stderr result)).
                       \<not> has_txt_marker line \<and> \<not> has_challenge_marker line"
  shows "extract_txt_value (stdout result @ stderr result) = None \<and>
         issue_certificate env cfg domain force_renew w =
           (False,
            w\<lparr>trace := trace w @ [AcmeRun (first_command env cfg w domain force_renew)],
              errlog := errlog w @
                [ErrNoTxtValue, ErrAcmeOutput (stdout result), ErrAcmeError (stderr result)]\<rparr>) \<and>
         (check_cert_expiry env cfg w domain \<longrightarrow>
          (if check_certificate_exists env cfg w domain
           then has_active_record w domain \<and> force_renew else \<not> force_renew) \<longrightarrow>
          process_domain env cfg domain w =
            (Inr False, snd (issue_certificate env cfg domain force_renew w)))"
proof -
  have "scan_challenge (split_on newline (stdout result @ stderr result)) = None"
    using unmarked by (intro scan_challenge_None) blast
  moreover have "\<forall>line \<in> set (split_on newline (stdout result @ stderr result)).
      \<not> has_txt_marker line"
    using unmarked by blast
  ultimately have none: "extract_txt_value (stdout result @ stderr result) = None"
    using extract_txt_value_unmarked by simp
  have issue: "issue_certificate env cfg domain force_renew w =
      (False,
       w\<lparr>trace := trace w @ [AcmeRun (first_command env cfg w domain force_renew)],
         errlog := errlog w @
           [ErrNoTxtValue, ErrAcmeOutput (stdout result), ErrAcmeError (stderr result)]\<rparr>)"
    using run none
    by (simp add: issue_certificate_def Let_def report_no_txt_value_def log_error_def emit_def)
  have "process_domain env cfg domain w =
      (Inr False, snd (issue_certificate env cfg domain force_renew w))"
    if "check_cert_expiry env cfg w domain"
      and "if check_certificate_exists env cfg w domain
           then has_active_record w domain \<and> force_renew else \<not> force_renew"
    using that issue by (auto simp: process_domain_def Let_def split: if_splits)
  then show ?thesis using none issue by blast
qed

theorem issue_certificate_no_txt_value_witness:
  "subprocess_run env_no_marker
     (trace empty_world @
      [AcmeRun (first_command env_no_marker demo_cfg empty_world ''x.example.com'' False)]) =
     Some \<lparr>returncode = 1, stdout = ''rate limited'', stderr = ''try later''\<rparr> \<and>
   split_on newline (''rate limited'' @ ''try later'') = [''rate limitedtry later''] \<and>
   \<not> has_txt_marker ''rate limitedtry later'' \<and>
   \<not> has_challenge_marker ''rate limitedtry later'' \<and>
   check_cert_expiry env_no_marker demo_cfg empty_world ''x.example.com'' \<and>
   \<not> check_certificate_exists env_no_marker demo_cfg empty_world ''x.example.com'' \<and>
   fst (issue_certificate env_no_marker demo_cfg ''x.example.com'' False empty_world) =
     False \<and>
   errlog (snd (issue_certificate env_no_marker demo_cfg ''x.example.com'' False
                  empty_world)) =
     [ErrNoTxtValue, ErrAcmeOutput ''rate limited'', ErrAcmeError ''try later''] \<and>
   fst (process_domain env_no_marker demo_cfg ''x.example.com'' empty_world) = Inr False"
proof -
  let ?result = "\<lparr>returncode = 1, stdout = ''rate limited'', stderr = ''try later''\<rparr>"
  have run: "subprocess_run env_no_marker
      (trace empty_world @
       [AcmeRun (first_command env_no_marker demo_cfg empty_world ''x.example.com'' False)]) =
      Some ?result"
    by (simp add: env_no_marker_def demo_env_def)
  have lines: "split_on newline (''rate limited'' @ ''try later'') =
      [''rate limitedtry later'']"
    by code_simp
  have u1: "\<not> has_txt_marker ''rate limitedtry later''" by code_simp
  have u2: "\<not> has_challenge_marker ''rate limitedtry later''" by code_simp
  have need: "check_cert_expiry env_no_marker demo_cfg empty_world ''x.example.com''"
    by (simp add: check_cert_expiry_def empty_world_def)
  have absent: "\<not> check_certificate_exists env_no_marker demo_cfg empty_world
      ''x.example.com''"
    by code_simp
  have unmarked: "\<forall>line \<in> set (split_on newline (stdout ?result @ stderr ?result)).
      \<not> has_txt_marker line \<and> \<not> has_challenge_marker line"
    using lines u1 u2 by simp
  from issue_certificate_no_txt_value [OF run unmarked] need absent
  have "issue_certificate env_no_marker demo_cfg ''x.example.com'' False empty_world =
      (False,
       empty_world\<lparr>trace := trace empty_world @
           [AcmeRun (first_command env_no_marker demo_cfg empty_world ''x.example.com''
                       False)],
         errlog := errlog empty_world @
           [ErrNoTxtValue, ErrAcmeOutput ''rate limited'', ErrAcmeError ''try later'']\<rparr>)"
    and "process_domain env_no_marker demo_cfg ''x.example.com'' empty_world =
      (Inr False,
       snd (issue_certificate env_no_marker demo_cfg ''x.example.com'' False empty_world))"
    by simp_all
  then show ?thesis using run lines u1 u2 need absent by (simp add: empty_world_def)
qed

text \<open>
  Claim C3 fails on the code when the second acme.sh run raises: the handler of line 325
  returns false without reaching line 316, so the TXT record just created is not deleted.
  Here the first run prints the challenge, the record is created with the ID rid-1, and
  the second \<^verbatim>\<open>subprocess.run\<close> raises: no delete request follows.  When the second run
  returns instead, the record is deleted.
\<close>

theorem issue_certificate_renew_raises:
  "fst (issue_certificate env_renew_raises demo_cfg ''x.example.com'' False empty_world) =
     False \<and>
   trace (snd (issue_certificate env_renew_raises demo_cfg ''x.example.com'' False
                 empty_world)) =
     [AcmeRun [''/opt/acme/acme.sh'', ''--issue'', ''--dns'', ''-d'', ''x.example.com'',
               manual_dns_ack],
      DescribeDomainRecords ''example.com'' ''_acme-challenge.x'' ''TXT'',
      AddDomainRecord ''example.com'' ''_acme-challenge.x'' ''TXT'' ''abc123'',
      Sleep 60,
      AcmeRun [''/opt/acme/acme.sh'', ''--renew'', ''-d'', ''x.example.com'',
               manual_dns_ack]] \<and>
   errlog (snd (issue_certificate env_renew_raises demo_cfg ''x.example.com'' False
                  empty_world)) = [ErrIssueException] \<and>
   trace (snd (issue_certificate demo_env demo_cfg ''x.example.com'' False empty_world)) =
     [AcmeRun [''/opt/acme/acme.sh'', ''--issue'', ''--dns'', ''-d'', ''x.example.com'',
               manual_dns_ack],
      DescribeDomainRecords ''example.com'' ''_acme-challenge.x'' ''TXT'',
      AddDomainRecord ''example.com'' ''_acme-challenge.x'' ''TXT'' ''abc123'',
      Sleep 60,
      AcmeRun [''/opt/acme/acme.sh'', ''--renew'', ''-d'', ''x.example.com'',
               manual_dns_ack],
      DeleteDomainRecord ''rid-1'']"
  by code_simp

section \<open>Existing certificate files\<close>

text \<open>
  Claim C2 as stated fails in its last part when the record file cannot be written:
  y.example.com needs renewal (no record), has its certificate files, issuance is skipped
  and the publish succeeds, but \<^verbatim>\<open>update_cert_record\<close> raises in \<^verbatim>\<open>_save_cert_records\<close>, and
  the loop of \<^verbatim>\<open>run\<close> counts the domain as failed, not as a success.
\<close>

theorem skipped_issuance_write_fails_counterexample:
  "check_cert_expiry env_write_fails demo_cfg empty_world ''y.example.com'' \<and>
   check_certificate_exists env_write_fails demo_cfg empty_world ''y.example.com'' \<and>
   \<not> has_active_record empty_world ''y.example.com'' \<and>
   fst (upload_cert_to_qiniu env_write_fails demo_cfg ''y.example.com'' empty_world) =
     True \<and>
   fst (process_domain env_write_fails demo_cfg ''y.example.com'' empty_world) \<noteq>
     Inr True \<and>
   fst (run env_write_fails demo_cfg empty_world) = Some (0, 1)"
  by code_simp

text \<open>
  Claim C2, amended.  For every domain for which renewal is needed and a complete artifact
  set (certificate file and key file) already exists on disk: when the domain's record
  exists in the store with status \<open>active\<close>, \<^verbatim>\<open>process_domain\<close> invokes issuance in
  forced-renewal mode (the first call is acme.sh with \<^verbatim>\<open>--renew --force\<close>), returns false
  when it fails and publishes when it succeeds; otherwise it skips issuance entirely (no
  acme.sh run, DNS request or wait is made) and proceeds directly to publishing the
  existing artifacts.  A successful publish in that skip case still creates the record
  in memory; when the record file is then written the record is also in the file and the
  domain counts as a success, and when the write raises the domain counts as failed.
\<close>

theorem process_domain_with_artifacts:
  assumes need: "check_cert_expiry env cfg w domain"
      and present: "check_certificate_exists env cfg w domain"
  shows "(has_active_record w domain \<longrightarrow>
            (\<exists>extra evs. trace (snd (issue_certificate env cfg domain True w)) =
                trace w @
                AcmeRun ([acme_home_dir env cfg @ ''/acme.sh'', ''--renew'', ''--force'',
                          ''-d'', domain, manual_dns_ack] @ extra) # evs) \<and>
            process_domain env cfg domain w =
              (case issue_certificate env cfg domain True w of
                 (False, w1) \<Rightarrow> (Inr False, w1)
               | (True, w1) \<Rightarrow> upload_and_record env cfg domain w1))
       \<and> (\<not> has_active_record w domain \<longrightarrow>
            process_domain env cfg domain w = upload_and_record env cfg domain w \<and>
            filter issuance_event (trace (snd (process_domain env cfg domain w))) =
              filter issuance_event (trace w) \<and>
            (\<forall>w1. upload_cert_to_qiniu env cfg domain w = (True, w1) \<longrightarrow>
               (write_record_file env (trace w1 @ [WriteRecordFile]) = Written \<longrightarrow>
                  (\<exists>w2. process_domain env cfg domain w = (Inr True, w2) \<and>
                        cert_records w2 = (cert_records w)(domain \<mapsto> new_entry env w1) \<and>
                        record_file w2 = Some (cert_records w2) \<and>
                        run_loop env cfg (domain # rest) (s, f) w =
                          run_loop env cfg rest (s + 1, f) w2)) \<and>
               (write_record_file env (trace w1 @ [WriteRecordFile]) \<noteq> Written \<longrightarrow>
                  (\<exists>w2. process_domain env cfg domain w = (Inl OSError, w2) \<and>
                        cert_records w2 = (cert_records w)(domain \<mapsto> new_entry env w1) \<and>
                        run_loop env cfg (domain # rest) (s, f) w =
                          run_loop env cfg rest (s, f + 1) w2))))"
proof (intro conjI impI allI)
  assume active: "has_active_record w domain"
  obtain extra where "first_command env cfg w domain True =
      [acme_home_dir env cfg @ ''/acme.sh'', ''--renew'', ''--force'', ''-d'', domain,
       manual_dns_ack] @ extra"
    using first_command_forced [OF present] by blast
  then show "\<exists>extra evs. trace (snd (issue_certificate env cfg domain True w)) =
      trace w @
      AcmeRun ([acme_home_dir env cfg @ ''/acme.sh'', ''--renew'', ''--force'',
                ''-d'', domain, manual_dns_ack] @ extra) # evs"
    using issue_certificate_first_event [of env cfg domain True w] by metis
  show "process_domain env cfg domain w =
      (case issue_certificate env cfg domain True w of
         (False, w1) \<Rightarrow> (Inr False, w1)
       | (True, w1) \<Rightarrow> upload_and_record env cfg domain w1)"
    using need present active by (simp add: process_domain_def)
next
  assume inactive: "\<not> has_active_record w domain"
  show skip: "process_domain env cfg domain w = upload_and_record env cfg domain w"
    using need present inactive by (simp add: process_domain_def)
  show "filter issuance_event (trace (snd (process_domain env cfg domain w))) =
      filter issuance_event (trace w)"
    unfolding skip by (rule upload_and_record_events)
  fix w1
  assume up: "upload_cert_to_qiniu env cfg domain w = (True, w1)"
  show "\<exists>w2. process_domain env cfg domain w = (Inr True, w2) \<and>
          cert_records w2 = (cert_records w)(domain \<mapsto> new_entry env w1) \<and>
          record_file w2 = Some (cert_records w2) \<and>
          run_loop env cfg (domain # rest) (s, f) w = run_loop env cfg rest (s + 1, f) w2"
    if wr: "write_record_file env (trace w1 @ [WriteRecordFile]) = Written"
  proof -
    from upload_and_record_written [OF up wr] obtain w2 where
      w2: "upload_and_record env cfg domain w = (Inr True, w2)"
        "cert_records w2 = (cert_records w)(domain \<mapsto> new_entry env w1)"
        "record_file w2 = Some (cert_records w2)"
      by blast
    have pd: "process_domain env cfg domain w = (Inr True, w2)"
      using skip w2(1) by (simp only:)
    have loop: "run_loop env cfg (domain # rest) (s, f) w =
        run_loop env cfg rest (s + 1, f) w2"
      using pd by simp
    show ?thesis
      by (rule exI [of _ w2]) (intro conjI pd w2(2) w2(3) loop)
  qed
  show "\<exists>w2. process_domain env cfg domain w = (Inl OSError, w2) \<and>
          cert_records w2 = (cert_records w)(domain \<mapsto> new_entry env w1) \<and>
          run_loop env cfg (domain # rest) (s, f) w = run_loop env cfg rest (s, f + 1) w2"
    if wr: "write_record_file env (trace w1 @ [WriteRecordFile]) \<noteq> Written"
  proof -
    from upload_and_record_not_written [OF up wr] obtain w2 where
      w2: "upload_and_record env cfg domain w = (Inl OSError, w2)"
        "cert_records w2 = (cert_records w)(domain \<mapsto> new_entry env w1)"
      by blast
    have pd: "process_domain env cfg domain w = (Inl OSError, w2)"
      using skip w2(1) by (simp only:)
    have loop: "run_loop env cfg (domain # rest) (s, f) w =
        run_loop env cfg rest (s, f + 1) w2"
      using pd by simp
    show ?thesis
      by (rule exI [of _ w2]) (intro conjI pd w2(2) loop)
  qed
qed

theorem process_domain_with_artifacts_witness:
  "check_cert_expiry demo_env demo_cfg empty_world ''y.example.com'' \<and>
   check_certificate_exists demo_env demo_cfg empty_world ''y.example.com'' \<and>
   \<not> has_active_record empty_world ''y.example.com'' \<and>
   fst (upload_cert_to_qiniu demo_env demo_cfg ''y.example.com'' empty_world) = True \<and>
   filter issuance_event
     (trace (snd (process_domain demo_env demo_cfg ''y.example.com'' empty_world))) =
   filter issuance_event (trace empty_world) \<and>
   fst (process_domain demo_env demo_cfg ''y.example.com'' empty_world) = Inr True \<and>
   fst (run demo_env demo_cfg empty_world) = Some (1, 0) \<and>
   check_cert_expiry demo_env demo_cfg (world_expiring ''2025-01-31T00:00:00'')
     ''y.example.com'' \<and>
   check_certificate_exists demo_env demo_cfg (world_expiring ''2025-01-31T00:00:00'')
     ''y.example.com'' \<and>
   has_active_record (world_expiring ''2025-01-31T00:00:00'') ''y.example.com'' \<and>
   process_domain demo_env demo_cfg ''y.example.com''
     (world_expiring ''2025-01-31T00:00:00'') =
   (case issue_certificate demo_env demo_cfg ''y.example.com'' True
           (world_expiring ''2025-01-31T00:00:00'') of
      (False, w1) \<Rightarrow> (Inr False, w1)
    | (True, w1) \<Rightarrow> upload_and_record demo_env demo_cfg ''y.example.com'' w1) \<and>
   trace (snd (issue_certificate demo_env demo_cfg ''y.example.com'' True
                 (world_expiring ''2025-01-31T00:00:00''))) =
     [AcmeRun [''/opt/acme/acme.sh'', ''--renew'', ''--force'', ''-d'', ''y.example.com'',
               manual_dns_ack],
      DescribeDomainRecords ''example.com'' ''_acme-challenge.y'' ''TXT'',
      AddDomainRecord ''example.com'' ''_acme-challenge.y'' ''TXT'' ''abc123'',
      Sleep 60,
      AcmeRun [''/opt/acme/acme.sh'', ''--renew'', ''-d'', ''y.example.com'',
               manual_dns_ack],
      DeleteDomainRecord ''rid-1'']"
proof -
  let ?d = "''y.example.com''"
  let ?w = "world_expiring ''2025-01-31T00:00:00''"
  have need: "check_cert_expiry demo_env demo_cfg empty_world ?d" by code_simp
  have present: "check_certificate_exists demo_env demo_cfg empty_world ?d" by code_simp
  have inactive: "\<not> has_active_record empty_world ?d" by code_simp
  have up: "fst (upload_cert_to_qiniu demo_env demo_cfg ?d empty_world) = True"
    by code_simp
  have ok: "fst (process_domain demo_env demo_cfg ?d empty_world) = Inr True"
    by code_simp
  have tally: "fst (run demo_env demo_cfg empty_world) = Some (1, 0)" by code_simp
  have need': "check_cert_expiry demo_env demo_cfg ?w ?d" by code_simp
  have present': "check_certificate_exists demo_env demo_cfg ?w ?d" by code_simp
  have active: "has_active_record ?w ?d" by code_simp
  have tr: "trace (snd (issue_certificate demo_env demo_cfg ?d True ?w)) =
     [AcmeRun [''/opt/acme/acme.sh'', ''--renew'', ''--force'', ''-d'', ''y.example.com'',
               manual_dns_ack],
      DescribeDomainRecords ''example.com'' ''_acme-challenge.y'' ''TXT'',
      AddDomainRecord ''example.com'' ''_acme-challenge.y'' ''TXT'' ''abc123'',
      Sleep 60,
      AcmeRun [''/opt/acme/acme.sh'', ''--renew'', ''-d'', ''y.example.com'',
               manual_dns_ack],
      DeleteDomainRecord ''rid-1'']"
    by code_simp
  note skip = process_domain_with_artifacts [OF need present, of "[]" 0 0,
      THEN conjunct2, THEN mp, OF inactive]
  have events: "filter issuance_event
      (trace (snd (process_domain demo_env demo_cfg ?d empty_world))) =
    filter issuance_event (trace empty_world)"
    by (rule skip [THEN conjunct2, THEN conjunct1])
  note forced = process_domain_with_artifacts [OF need' present', of "[]" 0 0,
      THEN conjunct1, THEN mp, OF active]
  have issue: "process_domain demo_env demo_cfg ?d ?w =
    (case issue_certificate demo_env demo_cfg ?d True ?w of
       (False, w1) \<Rightarrow> (Inr False, w1)
     | (True, w1) \<Rightarrow> upload_and_record demo_env demo_cfg ?d w1)"
    by (rule forced [THEN conjunct2])
  show ?thesis
    by (intro conjI need present inactive up events ok tally need' present' active issue tr)
qed

section \<open>A failed cycle and the record store\<close>

text \<open>
  Claim C8 as stated fails for a cycle that fails by raising.  \<^verbatim>\<open>update_cert_record\<close>
  puts the new entry into \<^verbatim>\<open>self.cert_records\<close> (line 473) before it writes the file
  (line 479); when the write raises, \<^verbatim>\<open>process_domain\<close> raises, the domain is counted as
  failed, and the in-memory store has changed for that domain.  Here y.example.com has
  its certificate files and no record, the upload succeeds and \<^verbatim>\<open>open\<close> raises.
\<close>

theorem failed_cycle_changes_store_counterexample:
  "cert_records empty_world ''y.example.com'' = None \<and>
   fst (process_domain env_write_fails demo_cfg ''y.example.com'' empty_world) =
     Inl OSError \<and>
   cert_records (snd (process_domain env_write_fails demo_cfg ''y.example.com'' empty_world))
     ''y.example.com'' =
     Some \<lparr>expiry_date = Some ''2025-04-01T00:00:00'',
           updated_at = Some ''2025-01-01T00:00:00'', status = Some ''active''\<rparr> \<and>
   fst (run_loop env_write_fails demo_cfg [''y.example.com''] (0, 0) empty_world) = (0, 1)"
  by code_simp

text \<open>
  Claim C8, amended.  For every domain whose cycle fails: when \<^verbatim>\<open>process_domain\<close> returns
  false, the certificate record store, both the in-memory \<^verbatim>\<open>cert_records\<close> mapping and the
  backing file, is left unchanged; when \<^verbatim>\<open>process_domain\<close> raises (the write of the record
  file failed), the in-memory mapping holds a new active entry for that domain and is
  unchanged for every other domain, and the backing file is unchanged or no longer a
  well-formed document; in both cases the loop of \<^verbatim>\<open>run\<close> counts the domain as failed and
  goes on with the next configured domain.
\<close>

theorem failed_cycle_store:
  assumes run: "process_domain env cfg domain w = (r, w')" and failed: "failed r"
  shows "(r = Inr False \<longrightarrow>
            cert_records w' = cert_records w \<and> record_file w' = record_file w)
       \<and> (\<forall>e. r = Inl e \<longrightarrow>
            (\<exists>entry. status entry = Some ''active'' \<and>
                      cert_records w' = (cert_records w)(domain \<mapsto> entry)) \<and>
            (record_file w' = record_file w \<or> record_file w' = None))
       \<and> run_loop env cfg (domain # rest) (s, f) w = run_loop env cfg rest (s, f + 1) w'"
proof -
  have ne: "r \<noteq> Inr True" using failed by auto
  from process_domain_cases [OF run ne]
  consider (issue) force where
      "issue_certificate env cfg domain force w = (False, w')" "r = Inr False"
    | (publish) w1 where "cert_records w1 = cert_records w" "record_file w1 = record_file w"
        "upload_and_record env cfg domain w1 = (r, w')"
    by blast
  then have store: "(r = Inr False \<longrightarrow>
            cert_records w' = cert_records w \<and> record_file w' = record_file w)
       \<and> (\<forall>e. r = Inl e \<longrightarrow>
            (\<exists>entry. status entry = Some ''active'' \<and>
                      cert_records w' = (cert_records w)(domain \<mapsto> entry)) \<and>
            (record_file w' = record_file w \<or> record_file w' = None))"
  proof cases
    case issue
    then show ?thesis using issue_certificate_store [OF issue(1)] by simp
  next
    case publish
    show ?thesis
    proof (cases r)
      case (Inl e)
      from upload_and_record_Inl [of env cfg domain w1 e w'] publish(3) Inl
      obtain w2 where w2: "cert_records w' = (cert_records w1)(domain \<mapsto> new_entry env w2)"
        "record_file w' = record_file w1 \<or> record_file w' = None"
        by auto
      have "status (new_entry env w2) = Some ''active''" by (simp add: new_entry_def)
      then have "\<exists>entry. status entry = Some ''active'' \<and>
          cert_records w' = (cert_records w)(domain \<mapsto> entry)"
        using w2(1) publish(1) by auto
      then show ?thesis using Inl w2(2) publish(2) by simp
    next
      case (Inr ok)
      then have "r = Inr False" using ne by (cases ok) simp_all
      then show ?thesis
        using upload_and_record_False [of env cfg domain w1 w'] publish by simp
    qed
  qed
  have loop: "run_loop env cfg (domain # rest) (s, f) w = run_loop env cfg rest (s, f + 1) w'"
  proof (cases r)
    case (Inl e)
    then show ?thesis using run by simp
  next
    case (Inr ok)
    then have "r = Inr False" using ne by (cases ok) simp_all
    then show ?thesis using run by simp
  qed
  show ?thesis
    by (rule conjI [OF store [THEN conjunct1] conjI [OF store [THEN conjunct2] loop]])
qed

theorem failed_cycle_store_witness:
  "fst (process_domain env_renew_raises demo_cfg ''x.example.com'' empty_world) = Inr False \<and>
   cert_records (snd (process_domain env_renew_raises demo_cfg ''x.example.com'' empty_world))
     = cert_records empty_world \<and>
   record_file (snd (process_domain env_renew_raises demo_cfg ''x.example.com'' empty_world))
     = record_file empty_world \<and>
   fst (process_domain env_write_fails demo_cfg ''y.example.com'' empty_world) =
     Inl OSError \<and>
   record_file (snd (process_domain env_write_fails demo_cfg ''y.example.com'' empty_world))
     = None \<and>
   run_loop env_renew_raises demo_cfg [''x.example.com'', ''y.example.com''] (0, 0)
     empty_world =
   run_loop env_renew_raises demo_cfg [''y.example.com''] (0, 1)
     (snd (process_domain env_renew_raises demo_cfg ''x.example.com'' empty_world))"
proof -
  let ?p1 = "process_domain env_renew_raises demo_cfg ''x.example.com'' empty_world"
  let ?p2 = "process_domain env_write_fails demo_cfg ''y.example.com'' empty_world"
  have r1: "fst ?p1 = Inr False" by code_simp
  have r2: "fst ?p2 = Inl OSError" by code_simp
  have e1: "?p1 = (Inr False, snd ?p1)" using r1 by (metis prod.collapse)
  have e2: "?p2 = (Inl OSError, snd ?p2)" using r2 by (metis prod.collapse)
  have f1: "failed (Inr False)" and f2: "failed (Inl OSError)" by simp_all
  have none: "record_file empty_world = None" by (simp add: empty_world_def)
  note t1 = failed_cycle_store [OF e1 f1, of "[''y.example.com'']" 0 0]
  have a: "cert_records (snd ?p1) = cert_records empty_world \<and>
      record_file (snd ?p1) = record_file empty_world"
    by (rule t1 [THEN conjunct1, THEN mp, OF refl])
  have c: "run_loop env_renew_raises demo_cfg [''x.example.com'', ''y.example.com''] (0, 0)
       empty_world =
     run_loop env_renew_raises demo_cfg [''y.example.com''] (0, 1) (snd ?p1)"
    using t1 [THEN conjunct2, THEN conjunct2] by (simp only: add_0)
  note t2 = failed_cycle_store [OF e2 f2, of "[]" 0 0]
  have "record_file (snd ?p2) = record_file empty_world \<or> record_file (snd ?p2) = None"
    by (rule t2 [THEN conjunct2, THEN conjunct1, THEN spec, THEN mp, OF refl,
          THEN conjunct2])
  then have b: "record_file (snd ?p2) = None"
  proof
    assume "record_file (snd ?p2) = record_file empty_world"
    then show ?thesis by (simp only: none)
  next
    assume "record_file (snd ?p2) = None"
    then show ?thesis .
  qed
  show ?thesis
    by (intro conjI r1 r2 b c a [THEN conjunct1] a [THEN conjunct2])
qed

section \<open>The final tally\<close>

text \<open>
  Claim C9.  After \<^verbatim>\<open>run\<close> completes, every configured domain is counted exactly once in
  the final tally: \<open>success_count\<close> is the number of domains for which \<^verbatim>\<open>process_domain\<close>
  returned true, \<open>fail_count\<close> the number of those for which it returned false or raised
  (the exception is caught in the loop and the next domain is processed), and their sum
  is the number of configured domains.  Without configured domains \<^verbatim>\<open>run\<close> returns before
  there is a tally.
\<close>

theorem run_tally:
  "(domains cfg \<noteq> [] \<longrightarrow>
      fst (run env cfg w) =
        Some (length (filter (\<lambda>r. r = Inr True) (outcomes env cfg (domains cfg) w)),
              length (filter failed (outcomes env cfg (domains cfg) w))))
   \<and> (domains cfg = [] \<longrightarrow> run env cfg w = (None, w))
   \<and> length (outcomes env cfg (domains cfg) w) = length (domains cfg)
   \<and> length (filter (\<lambda>r. r = Inr True) (outcomes env cfg (domains cfg) w)) +
       length (filter failed (outcomes env cfg (domains cfg) w)) = length (domains cfg)"
proof -
  have "fst (run env cfg w) = Some (fst (run_loop env cfg (domains cfg) (0, 0) w))"
    if "domains cfg \<noteq> []"
    using that by (simp add: run_def split: prod.splits)
  then show ?thesis
    using run_loop_counts [of env cfg "domains cfg" 0 0 w]
      succeeded_or_failed [of "outcomes env cfg (domains cfg) w"]
    by (simp add: length_outcomes run_def)
qed

theorem run_tally_witness:
  "domains two_domains_cfg = [''y.example.com'', ''x.example.com''] \<and>
   outcomes env_renew_raises two_domains_cfg (domains two_domains_cfg) empty_world =
     [Inr True, Inr False] \<and>
   outcomes env_write_fails two_domains_cfg (domains two_domains_cfg) empty_world =
     [Inl OSError, Inl OSError] \<and>
   fst (run env_renew_raises two_domains_cfg empty_world) = Some (1, 1) \<and>
   fst (run env_write_fails two_domains_cfg empty_world) = Some (0, 2)"
proof -
  have doms: "domains two_domains_cfg = [''y.example.com'', ''x.example.com'']"
    by (simp add: two_domains_cfg_def)
  have o1: "outcomes env_renew_raises two_domains_cfg (domains two_domains_cfg) empty_world =
      [Inr True, Inr False]"
    by code_simp
  have o2: "outcomes env_write_fails two_domains_cfg (domains two_domains_cfg) empty_world =
      [Inl OSError, Inl OSError]"
    by code_simp
  have ne: "domains two_domains_cfg \<noteq> []" using doms by simp
  from run_tally [of two_domains_cfg env_renew_raises empty_world] ne o1
  have r1: "fst (run env_renew_raises two_domains_cfg empty_world) = Some (1, 1)"
    by simp
  from run_tally [of two_domains_cfg env_write_fails empty_world] ne o2
  have r2: "fst (run env_write_fails two_domains_cfg empty_world) = Some (0, 2)"
    by simp
  show ?thesis using doms o1 o2 r1 r2 by simp
qed

end
